theory Spec2Isabelle
  imports Main "HOL-Library.Word"
begin

section \<open>JavaScript values\<close>

text \<open>
  The server is a JavaScript module (\<open>build/index.js\<close>). Values that travel through it
  (tool arguments, response bodies) are JSON values, or \<open>undefined\<close> for a property that is
  not there.

  A JSON number is a floating-point value, whole or not. The module computes with none:
  a number of the arguments is printed into a path or handed on to the client. So a
  number is kept here by the one thing that is read of it, the text that the language's
  number-to-string conversion gives for it (\<open>42\<close>, \<open>1.5\<close>, \<open>1e+21\<close>); the arithmetic
  behind that text is not modelled.
\<close>

datatype js_number = Number string

datatype js_value =
    JUndefined
  | JNull
  | JBool bool
  | JNum js_number
  | JStr string
  | JArr "js_value list"
  | JObj "(string \<times> js_value) list"

text \<open>An object that is read by property name: \<open>request.params.arguments\<close>.\<close>

type_synonym js_object = "string \<rightharpoonup> js_value"

text \<open>Reading a property (also by destructuring): a missing one is \<open>undefined\<close>.\<close>

definition property :: "js_object \<Rightarrow> string \<Rightarrow> js_value" where
  "property obj k = (case obj k of None \<Rightarrow> JUndefined | Some v \<Rightarrow> v)"

fun string_of_nat :: "nat \<Rightarrow> string" where
  "string_of_nat n =
     (if n < 10 then [''0123456789'' ! n]
      else string_of_nat (n div 10) @ [''0123456789'' ! (n mod 10)])"

declare string_of_nat.simps [simp del]

text \<open>
  The status of a response is the code the HTTP client has parsed from the status line,
  an unsigned 16-bit integer (\<open>unsigned short\<close> in the browser's request object, the same
  width in the parser of the server runtime). Such a number prints in plain decimal.
\<close>

type_synonym status_code = "16 word"

definition number_to_string :: "status_code \<Rightarrow> string" where
  "number_to_string w = string_of_nat (unat w)"

fun join_with :: "string \<Rightarrow> string list \<Rightarrow> string" where
  "join_with sep [] = []"
| "join_with sep [s] = s"
| "join_with sep (s # t # ss) = s @ sep @ join_with sep (t # ss)"

text \<open>
  What a template literal \<open>`...${v}...`\<close> puts in place of \<open>v\<close>: the value's string
  conversion. A string is taken as it is, character for character; a number gives the
  text of its conversion; an array gives its elements joined by commas, with nothing for
  an element that is \<open>null\<close> or \<open>undefined\<close>; an object of JSON gives \<open>[object Object]\<close>.
\<close>

fun to_string :: "js_value \<Rightarrow> string" where
  "to_string JUndefined = ''undefined''"
| "to_string JNull = ''null''"
| "to_string (JBool b) = (if b then ''true'' else ''false'')"
| "to_string (JNum (Number text)) = text"
| "to_string (JStr s) = s"
| "to_string (JArr vs) =
     join_with '','' (map (\<lambda>v. if v = JUndefined \<or> v = JNull then [] else to_string v) vs)"
| "to_string (JObj kvs) = ''[object Object]''"

section \<open>Errors\<close>

text \<open>The error codes of the protocol SDK's \<open>ErrorCode\<close> enumeration.\<close>

datatype ErrorCode =
    ConnectionClosed
  | RequestTimeout
  | ParseError
  | InvalidRequest
  | MethodNotFound
  | InvalidParams
  | InternalError

text \<open>
  What can be thrown: the SDK's \<open>McpError\<close> with the code and the message text given to
  its constructor, an error of the HTTP client (the ones \<open>axios.isAxiosError\<close> accepts) with
  its message, a \<open>TypeError\<close> of the language itself, and any other \<open>Error\<close>.
\<close>

datatype js_error =
    McpError ErrorCode string
  | AxiosError string
  | TypeError string
  | Error string

definition isAxiosError :: "js_error \<Rightarrow> bool" where
  "isAxiosError e = (case e of AxiosError m \<Rightarrow> True | _ \<Rightarrow> False)"

text \<open>
  \<open>McpError\<close> is declared in the SDK, not in this repository: how its constructor turns
  the code and the text into the error's \<open>message\<close> is a parameter of the model.
\<close>

type_synonym mcp_format = "ErrorCode \<Rightarrow> string \<Rightarrow> string"

definition message :: "mcp_format \<Rightarrow> js_error \<Rightarrow> string" where
  "message fmt e =
     (case e of
        McpError c m \<Rightarrow> fmt c m
      | AxiosError m \<Rightarrow> m
      | TypeError m \<Rightarrow> m
      | Error m \<Rightarrow> m)"

section \<open>The HTTP client\<close>

datatype http_method = GET | POST | PUT | PATCH | DELETE | HEAD | OPTIONS

text \<open>The settings of \<open>axios.create\<close>, shared by every request of the instance.\<close>

record axios_config =
  baseURL :: string
  headers :: "(string \<times> string) list"

text \<open>
  A request as the code hands it to the client: the instance's settings, the method (\<open>verb\<close>), the
  path and the \<open>params\<close> object (empty when the call gives none), in the order written.
\<close>

record http_request =
  config :: axios_config
  verb :: http_method
  url :: string
  params :: "(string \<times> js_value) list"

record http_response =
  status :: status_code
  statusText :: string
  data :: js_value

text \<open>The awaited call either resolves with a response or rejects with an error.\<close>

datatype axios_outcome = Resolves http_response | Rejects js_error

type_synonym upstream = "http_request \<Rightarrow> axios_outcome"

definition axiosInstance :: "string \<Rightarrow> axios_config" where
  "axiosInstance API_KEY =
     \<lparr>baseURL = ''https://data.solanatracker.io'', headers = [(''x-api-key'', API_KEY)]\<rparr>"

text \<open>
  Module start: without the API key (unset or empty) the module throws before anything
  is set up; otherwise the one client instance is created.
\<close>

definition load_module :: "string option \<Rightarrow> js_error + axios_config" where
  "load_module env_key =
     (case env_key of
        None \<Rightarrow> Inl (Error ''SOLANA_TRACKER_API_KEY environment variable is required'')
      | Some k \<Rightarrow>
          if k = [] then Inl (Error ''SOLANA_TRACKER_API_KEY environment variable is required'')
          else Inr (axiosInstance k))"

definition axios_get :: "axios_config \<Rightarrow> string \<Rightarrow> (string \<times> js_value) list \<Rightarrow> http_request" where
  "axios_get ax path ps = \<lparr>config = ax, verb = GET, url = path, params = ps\<rparr>"

section \<open>The tool catalog\<close>

text \<open>
  The list-tools handler returns a fixed array of descriptors. Each has a name, a
  description (prose for the calling agent, left out here) and an input schema: either
  the empty object, or an object schema with typed properties and, for most tools, a
  list of required ones (written as the empty list where the source has none).
\<close>

datatype prim_type = T_string | T_integer | T_number | T_boolean

record input_schema =
  properties :: "(string \<times> prim_type) list"
  required :: "string list"

record ToolDescriptor =
  name :: string
  inputSchema :: "input_schema option"

definition tools :: "ToolDescriptor list" where
  "tools = [
  \<lparr>name = ''get_token_information'',
    inputSchema = Some \<lparr>properties =
       [(''tokenAddress'', T_string)],
      required = [''tokenAddress'']\<rparr>\<rparr>,
  \<lparr>name = ''get_token_information_by_pool'',
    inputSchema = Some \<lparr>properties =
       [(''poolAddress'', T_string)],
      required = [''poolAddress'']\<rparr>\<rparr>,
  \<lparr>name = ''get_token_holders_top'',
    inputSchema = Some \<lparr>properties =
       [(''tokenAddress'', T_string)],
      required = [''tokenAddress'']\<rparr>\<rparr>,
  \<lparr>name = ''get_token_ath'',
    inputSchema = Some \<lparr>properties =
       [(''tokenAddress'', T_string)],
      required = [''tokenAddress'']\<rparr>\<rparr>,
  \<lparr>name = ''get_tokens_created_by_wallet'',
    inputSchema = Some \<lparr>properties =
       [(''wallet'', T_string)],
      required = [''wallet'']\<rparr>\<rparr>,
  \<lparr>name = ''search_tokens'',
    inputSchema = Some \<lparr>properties =
       [(''query'', T_string),
        (''page'', T_integer),
        (''limit'', T_integer),
        (''sortBy'', T_string),
        (''sortOrder'', T_string),
        (''showAllPools'', T_string),
        (''minCreatedAt'', T_integer),
        (''maxCreatedAt'', T_integer),
        (''minLiquidity'', T_number),
        (''maxLiquidity'', T_number),
        (''minMarketCap'', T_integer),
        (''maxMarketCap'', T_integer),
        (''minBuys'', T_string),
        (''maxBuys'', T_string),
        (''minSells'', T_string),
        (''maxSells'', T_string),
        (''minTotalTransactions'', T_string),
        (''maxTotalTransactions'', T_string),
        (''lpBurn'', T_integer),
        (''market'', T_string),
        (''freezeAuthority'', T_string),
        (''mintAuthority'', T_string),
        (''deployer'', T_string),
        (''showPriceChanges'', T_boolean)],
      required = [''query'']\<rparr>\<rparr>,
  \<lparr>name = ''get_latest_tokens'',
    inputSchema = Some \<lparr>properties =
       [(''page'', T_string)],
      required = []\<rparr>\<rparr>,
  \<lparr>name = ''get_trending_tokens'',
    inputSchema = None\<rparr>,
  \<lparr>name = ''get_trending_tokens_timeframe'',
    inputSchema = Some \<lparr>properties =
       [(''timeframe'', T_string)],
      required = [''timeframe'']\<rparr>\<rparr>,
  \<lparr>name = ''get_tokens_volume'',
    inputSchema = None\<rparr>,
  \<lparr>name = ''get_tokens_multi_all'',
    inputSchema = None\<rparr>,
  \<lparr>name = ''get_tokens_multi_graduated'',
    inputSchema = None\<rparr>,
  \<lparr>name = ''get_token_price'',
    inputSchema = Some \<lparr>properties =
       [(''token'', T_string),
        (''priceChanges'', T_boolean)],
      required = [''token'']\<rparr>\<rparr>,
  \<lparr>name = ''get_token_price_history'',
    inputSchema = Some \<lparr>properties =
       [(''token'', T_string)],
      required = [''token'']\<rparr>\<rparr>,
  \<lparr>name = ''get_token_price_history_timestamp'',
    inputSchema = Some \<lparr>properties =
       [(''token'', T_string),
        (''timestamp'', T_integer)],
      required = [''token'', ''timestamp'']\<rparr>\<rparr>,
  \<lparr>name = ''get_tokens_price_multi'',
    inputSchema = Some \<lparr>properties =
       [(''tokens'', T_string),
        (''priceChanges'', T_boolean)],
      required = [''tokens'']\<rparr>\<rparr>,
  \<lparr>name = ''get_wallet_tokens'',
    inputSchema = Some \<lparr>properties =
       [(''owner'', T_string)],
      required = [''owner'']\<rparr>\<rparr>,
  \<lparr>name = ''get_wallet_tokens_basic'',
    inputSchema = Some \<lparr>properties =
       [(''owner'', T_string)],
      required = [''owner'']\<rparr>\<rparr>,
  \<lparr>name = ''get_wallet_tokens_page'',
    inputSchema = Some \<lparr>properties =
       [(''owner'', T_string),
        (''page'', T_integer)],
      required = [''owner'', ''page'']\<rparr>\<rparr>,
  \<lparr>name = ''get_wallet_trades'',
    inputSchema = Some \<lparr>properties =
       [(''owner'', T_string),
        (''cursor'', T_string)],
      required = [''owner'']\<rparr>\<rparr>,
  \<lparr>name = ''get_trades_token'',
    inputSchema = Some \<lparr>properties =
       [(''tokenAddress'', T_string),
        (''cursor'', T_string),
        (''showMeta'', T_string),
        (''parseJupiter'', T_string),
        (''hideArb'', T_string)],
      required = [''tokenAddress'']\<rparr>\<rparr>,
  \<lparr>name = ''get_trades_token_pool'',
    inputSchema = Some \<lparr>properties =
       [(''tokenAddress'', T_string),
        (''poolAddress'', T_string),
        (''cursor'', T_string),
        (''showMeta'', T_string),
        (''parseJupiter'', T_string),
        (''hideArb'', T_string)],
      required = [''tokenAddress'', ''poolAddress'']\<rparr>\<rparr>,
  \<lparr>name = ''get_trades_token_pool_owner'',
    inputSchema = Some \<lparr>properties =
       [(''tokenAddress'', T_string),
        (''poolAddress'', T_string),
        (''owner'', T_string),
        (''cursor'', T_string),
        (''showMeta'', T_string),
        (''parseJupiter'', T_string),
        (''hideArb'', T_string)],
      required = [''tokenAddress'', ''poolAddress'', ''owner'']\<rparr>\<rparr>,
  \<lparr>name = ''get_trades_token_by_wallet'',
    inputSchema = Some \<lparr>properties =
       [(''tokenAddress'', T_string),
        (''owner'', T_string),
        (''cursor'', T_string),
        (''showMeta'', T_string),
        (''parseJupiter'', T_string),
        (''hideArb'', T_string)],
      required = [''tokenAddress'', ''owner'']\<rparr>\<rparr>,
  \<lparr>name = ''get_chart_token'',
    inputSchema = Some \<lparr>properties =
       [(''token'', T_string),
        (''type'', T_string),
        (''time_from'', T_integer),
        (''time_to'', T_integer),
        (''marketCap'', T_string),
        (''removeOutliers'', T_string)],
      required = [''token'']\<rparr>\<rparr>,
  \<lparr>name = ''get_chart_token_pool'',
    inputSchema = Some \<lparr>properties =
       [(''token'', T_string),
        (''pool'', T_string),
        (''type'', T_string),
        (''time_from'', T_integer),
        (''time_to'', T_integer),
        (''marketCap'', T_string),
        (''removeOutliers'', T_string)],
      required = [''token'', ''pool'']\<rparr>\<rparr>,
  \<lparr>name = ''get_pnl_wallet'',
    inputSchema = Some \<lparr>properties =
       [(''wallet'', T_string),
        (''showHistoricPnL'', T_string),
        (''holdingCheck'', T_string),
        (''hideDetails'', T_string)],
      required = [''wallet'']\<rparr>\<rparr>,
  \<lparr>name = ''get_first_buyers'',
    inputSchema = Some \<lparr>properties =
       [(''token'', T_string)],
      required = [''token'']\<rparr>\<rparr>,
  \<lparr>name = ''get_pnl_wallet_token'',
    inputSchema = Some \<lparr>properties =
       [(''wallet'', T_string),
        (''token'', T_string)],
      required = [''wallet'', ''token'']\<rparr>\<rparr>,
  \<lparr>name = ''get_top_traders_all'',
    inputSchema = Some \<lparr>properties =
       [(''page'', T_string),
        (''expandPnl'', T_string),
        (''sortBy'', T_string)],
      required = []\<rparr>\<rparr>,
  \<lparr>name = ''get_top_traders_token'',
    inputSchema = Some \<lparr>properties =
       [(''token'', T_string)],
      required = [''token'']\<rparr>\<rparr>,
  \<lparr>name = ''get_stats_token_pool'',
    inputSchema = Some \<lparr>properties =
       [(''token'', T_string),
        (''pool'', T_string)],
      required = [''token'', ''pool'']\<rparr>\<rparr>,
  \<lparr>name = ''get_stats_token'',
    inputSchema = Some \<lparr>properties =
       [(''token'', T_string)],
      required = [''token'']\<rparr>\<rparr>]"

text \<open>The parameters a descriptor lists as required (none for an empty schema).\<close>

definition required_of :: "ToolDescriptor \<Rightarrow> string list" where
  "required_of t = (case inputSchema t of None \<Rightarrow> [] | Some sch \<Rightarrow> required sch)"

definition tool_names :: "string list" where
  "tool_names = map name tools"

section \<open>The call-tool handler\<close>

text \<open>
  How a statement ends: normally (control goes on to the next statement), with
  \<open>return\<close> of a tool result, or with a thrown error. The only result the handler
  builds is \<open>{content: [{type: 'json', json: response.data}]}\<close>.
\<close>

datatype call_tool_result = Json_content js_value

datatype completion = Normal | Return call_tool_result | Throw js_error

text \<open>An effect: how the code ended and the requests it issued, in order.\<close>

type_synonym effect = "completion \<times> http_request list"

text \<open>
  \<open>const { p, ... } = request.params.arguments\<close>: when the request carries no arguments
  the destructuring throws a \<open>TypeError\<close> (its text is the engine's and names the first
  property); it stands before the \<open>try\<close>, so no \<open>catch\<close> of the case sees it.
\<close>

definition quoted :: "string \<Rightarrow> string" where
  "quoted s = [CHR 0x27] @ s @ [CHR 0x27]"

definition cannot_destructure :: "string \<Rightarrow> string" where
  "cannot_destructure first =
     ''Cannot destructure property '' @ quoted first @ '' of '' @
       quoted ''request.params.arguments'' @ '' as it is undefined.''"

definition destructure :: "js_object option \<Rightarrow> string \<Rightarrow> (js_object \<Rightarrow> effect) \<Rightarrow> effect" where
  "destructure arguments first body =
     (case arguments of
        None \<Rightarrow> (Throw (TypeError (cannot_destructure first)), [])
      | Some a \<Rightarrow> body a)"

text \<open>The statements of a \<open>try\<close> block after the awaited call.\<close>

definition status_check :: "http_response \<Rightarrow> completion" where
  "status_check response =
     (if status response \<noteq> 200 then
        Throw (McpError InternalError
          (''Solana Tracker API returned status code: '' @ number_to_string (status response)
             @ '': '' @ statusText response))
      else Return (Json_content (data response)))"

definition try_block :: "upstream \<Rightarrow> http_request \<Rightarrow> completion" where
  "try_block up req =
     (case up req of Rejects e \<Rightarrow> Throw e | Resolves response \<Rightarrow> status_check response)"

text \<open>The \<open>catch\<close> clause that the cases repeat, and the one of \<open>get_latest_tokens\<close>,
  whose first branch is empty.\<close>

definition catch_clause :: "mcp_format \<Rightarrow> js_error \<Rightarrow> completion" where
  "catch_clause fmt error =
     (if isAxiosError error then
        Throw (McpError InternalError (''Solana Tracker API error: '' @ message fmt error))
      else Throw (McpError InternalError (''Unknown error: '' @ message fmt error)))"

definition catch_clause_latest :: "mcp_format \<Rightarrow> js_error \<Rightarrow> completion" where
  "catch_clause_latest fmt error =
     (if isAxiosError error then Normal
      else Throw (McpError InternalError (''Unknown error: '' @ message fmt error)))"

definition try_catch :: "completion \<Rightarrow> (js_error \<Rightarrow> completion) \<Rightarrow> completion" where
  "try_catch c handler = (case c of Throw e \<Rightarrow> handler e | _ \<Rightarrow> c)"

text \<open>One request inside \<open>try { ... } catch (error) { ... }\<close>.\<close>

definition guarded_get ::
  "(js_error \<Rightarrow> completion) \<Rightarrow> axios_config \<Rightarrow> upstream \<Rightarrow> string \<Rightarrow> (string \<times> js_value) list \<Rightarrow> effect" where
  "guarded_get handler ax up path ps =
     (let req = axios_get ax path ps in (try_catch (try_block up req) handler, [req]))"

subsection \<open>The case blocks of the switch, in the order of the source\<close>

type_synonym case_block = "mcp_format \<Rightarrow> axios_config \<Rightarrow> upstream \<Rightarrow> js_object option \<Rightarrow> effect"

definition get_token_information :: case_block where
  "get_token_information fmt ax up arguments =
     destructure arguments ''tokenAddress'' (\<lambda>a.
       guarded_get (catch_clause fmt) ax up
         (''/tokens/'' @ to_string (property a ''tokenAddress'')) [])"

definition get_token_information_by_pool :: case_block where
  "get_token_information_by_pool fmt ax up arguments =
     destructure arguments ''poolAddress'' (\<lambda>a.
       guarded_get (catch_clause fmt) ax up
         (''/tokens/by-pool/'' @ to_string (property a ''poolAddress'')) [])"

definition get_token_holders_top :: case_block where
  "get_token_holders_top fmt ax up arguments =
     destructure arguments ''tokenAddress'' (\<lambda>a.
       guarded_get (catch_clause fmt) ax up
         (''/tokens/'' @ to_string (property a ''tokenAddress'') @ ''/holders/top'') [])"

definition get_token_ath :: case_block where
  "get_token_ath fmt ax up arguments =
     destructure arguments ''tokenAddress'' (\<lambda>a.
       guarded_get (catch_clause fmt) ax up
         (''/tokens/'' @ to_string (property a ''tokenAddress'') @ ''/ath'') [])"

definition get_tokens_created_by_wallet :: case_block where
  "get_tokens_created_by_wallet fmt ax up arguments =
     destructure arguments ''wallet'' (\<lambda>a.
       guarded_get (catch_clause fmt) ax up
         (''/deployer/'' @ to_string (property a ''wallet'')) [])"

definition search_fields :: "string list" where
  "search_fields =
     [''query'', ''page'', ''limit'', ''sortBy'', ''sortOrder'', ''showAllPools'',
      ''minCreatedAt'', ''maxCreatedAt'', ''minLiquidity'', ''maxLiquidity'',
      ''minMarketCap'', ''maxMarketCap'', ''minBuys'', ''maxBuys'', ''minSells'',
      ''maxSells'', ''minTotalTransactions'', ''maxTotalTransactions'', ''lpBurn'',
      ''market'', ''freezeAuthority'', ''mintAuthority'', ''deployer'',
      ''showPriceChanges'']"

definition search_tokens :: case_block where
  "search_tokens fmt ax up arguments =
     destructure arguments ''query'' (\<lambda>a.
       guarded_get (catch_clause fmt) ax up ''/search''
         (map (\<lambda>k. (k, property a k)) search_fields))"

definition get_latest_tokens :: case_block where
  "get_latest_tokens fmt ax up arguments =
     destructure arguments ''page'' (\<lambda>a.
       guarded_get (catch_clause_latest fmt) ax up ''/tokens/latest''
         [(''page'', property a ''page'')])"

definition get_trending_tokens :: case_block where
  "get_trending_tokens fmt ax up arguments =
     guarded_get (catch_clause fmt) ax up ''/tokens/trending'' []"

definition get_trending_tokens_timeframe :: case_block where
  "get_trending_tokens_timeframe fmt ax up arguments =
     destructure arguments ''timeframe'' (\<lambda>a.
       guarded_get (catch_clause fmt) ax up
         (''/tokens/trending/'' @ to_string (property a ''timeframe'')) [])"

definition get_tokens_volume :: case_block where
  "get_tokens_volume fmt ax up arguments =
     guarded_get (catch_clause fmt) ax up ''/tokens/volume'' []"

definition get_tokens_multi_all :: case_block where
  "get_tokens_multi_all fmt ax up arguments =
     guarded_get (catch_clause fmt) ax up ''/tokens/multi/all'' []"

text \<open>
  The last case of the source is cut short: the message of its status check breaks off
  after \<open>Solana Tracker API\<close>, the block has no \<open>return\<close> and its \<open>try\<close> has only an
  empty \<open>finally\<close>. What is there: the request, the throw on a status other than 200,
  and nothing else, so a rejection passes through as it is and a 200 ends normally.
\<close>

definition get_tokens_multi_graduated :: case_block where
  "get_tokens_multi_graduated fmt ax up arguments =
     (let req = axios_get ax ''/tokens/multi/graduated'' [] in
      ((case up req of
          Rejects e \<Rightarrow> Throw e
        | Resolves response \<Rightarrow>
            if status response \<noteq> 200 then Throw (McpError InternalError ''Solana Tracker API'')
            else Normal),
       [req]))"

definition switch_cases :: "(string \<times> case_block) list" where
  "switch_cases =
     [(''get_token_information'', get_token_information),
      (''get_token_information_by_pool'', get_token_information_by_pool),
      (''get_token_holders_top'', get_token_holders_top),
      (''get_token_ath'', get_token_ath),
      (''get_tokens_created_by_wallet'', get_tokens_created_by_wallet),
      (''search_tokens'', search_tokens),
      (''get_latest_tokens'', get_latest_tokens),
      (''get_trending_tokens'', get_trending_tokens),
      (''get_trending_tokens_timeframe'', get_trending_tokens_timeframe),
      (''get_tokens_volume'', get_tokens_volume),
      (''get_tokens_multi_all'', get_tokens_multi_all),
      (''get_tokens_multi_graduated'', get_tokens_multi_graduated)]"

definition case_labels :: "string list" where
  "case_labels = map fst switch_cases"

text \<open>
  The cases that begin with a destructuring of \<open>request.params.arguments\<close>, each with the
  first property of its pattern. The other four cases never read the arguments.
\<close>

definition destructuring_cases :: "(string \<times> string) list" where
  "destructuring_cases =
     [(''get_token_information'', ''tokenAddress''),
      (''get_token_information_by_pool'', ''poolAddress''),
      (''get_token_holders_top'', ''tokenAddress''),
      (''get_token_ath'', ''tokenAddress''),
      (''get_tokens_created_by_wallet'', ''wallet''),
      (''search_tokens'', ''query''),
      (''get_latest_tokens'', ''page''),
      (''get_trending_tokens_timeframe'', ''timeframe'')]"

subsection \<open>The switch statement\<close>

text \<open>
  A JavaScript \<open>switch\<close> jumps to the first case whose label equals the value and runs
  the blocks from there on: a block that ends normally (no \<open>return\<close>, \<open>throw\<close> or
  \<open>break\<close>) is followed by the next one. There is no \<open>default\<close>; with no matching label,
  and after the last block, the statement ends normally.
\<close>

fun run_blocks :: "case_block list \<Rightarrow> mcp_format \<Rightarrow> axios_config \<Rightarrow> upstream \<Rightarrow> js_object option \<Rightarrow> effect" where
  "run_blocks [] fmt ax up arguments = (Normal, [])"
| "run_blocks (b # bs) fmt ax up arguments =
     (case b fmt ax up arguments of
        (Normal, reqs) \<Rightarrow>
          (case run_blocks bs fmt ax up arguments of (c, reqs') \<Rightarrow> (c, reqs @ reqs'))
      | (c, reqs) \<Rightarrow> (c, reqs))"

fun switch :: "(string \<times> case_block) list \<Rightarrow> string \<Rightarrow> mcp_format \<Rightarrow> axios_config \<Rightarrow> upstream \<Rightarrow> js_object option \<Rightarrow> effect" where
  "switch [] n fmt ax up arguments = (Normal, [])"
| "switch ((label, b) # cs) n fmt ax up arguments =
     (if n = label then run_blocks (b # map snd cs) fmt ax up arguments
      else switch cs n fmt ax up arguments)"

text \<open>
  The handler: \<open>try { switch (request.params.name) { ... } } finally { }\<close>. An effect
  that ends \<open>Normal\<close> is the handler resolving with \<open>undefined\<close>.
\<close>

definition call_tool_handler :: "mcp_format \<Rightarrow> axios_config \<Rightarrow> upstream \<Rightarrow> string \<Rightarrow> js_object option \<Rightarrow> effect" where
  "call_tool_handler fmt ax up n arguments = switch switch_cases n fmt ax up arguments"

definition list_tools_handler :: "ToolDescriptor list" where
  "list_tools_handler = tools"

subsection \<open>A sequence of calls\<close>

text \<open>
  What the process holds between calls is the client instance created at module start
  (a \<open>const\<close>); the module declares no other variable and the handler assigns to
  none. The upstream is not part of the process and may answer differently from one
  call to the next, so each call of a sequence comes with the upstream as it is at
  that time. The handler reads the client from the state of the process.
\<close>

record server_state =
  client :: axios_config

record call =
  upstream_then :: upstream
  tool :: string
  arguments_of :: "js_object option"

definition serve :: "mcp_format \<Rightarrow> server_state \<Rightarrow> call \<Rightarrow> effect \<times> server_state" where
  "serve fmt s c =
     (call_tool_handler fmt (client s) (upstream_then c) (tool c) (arguments_of c), s)"

fun serve_all :: "mcp_format \<Rightarrow> server_state \<Rightarrow> call list \<Rightarrow> effect list \<times> server_state" where
  "serve_all fmt s [] = ([], s)"
| "serve_all fmt s (c # rest) =
     (case serve fmt s c of
        (e, s') \<Rightarrow> (case serve_all fmt s' rest of (es, s'') \<Rightarrow> (e # es, s'')))"

text \<open>Two upstreams give the same answer to each request of a list.\<close>

definition same_answers :: "upstream \<Rightarrow> upstream \<Rightarrow> http_request list \<Rightarrow> bool" where
  "same_answers up up' reqs = list_all (\<lambda>r. up r = up' r) reqs"

section \<open>Sample surroundings for the worked examples\<close>

text \<open>
  The message format of the SDK's \<open>McpError\<close> constructor (\<open>MCP error <code>: <text>\<close>,
  with the numeric codes of its \<open>ErrorCode\<close>), and four upstreams: one that answers every
  request with the same response, one that is unreachable, one whose answer is a 404
  (which the client turns into an error of its own), and one that is unreachable for
  \<open>/tokens/latest\<close> only.
\<close>

definition error_number :: "ErrorCode \<Rightarrow> string" where
  "error_number c =
     (case c of
        ConnectionClosed \<Rightarrow> ''-32000''
      | RequestTimeout \<Rightarrow> ''-32001''
      | ParseError \<Rightarrow> ''-32700''
      | InvalidRequest \<Rightarrow> ''-32600''
      | MethodNotFound \<Rightarrow> ''-32601''
      | InvalidParams \<Rightarrow> ''-32602''
      | InternalError \<Rightarrow> ''-32603'')"

definition sdk_format :: mcp_format where
  "sdk_format c m = ''MCP error '' @ error_number c @ '': '' @ m"

definition upstream_answers :: "status_code \<Rightarrow> string \<Rightarrow> js_value \<Rightarrow> upstream" where
  "upstream_answers code text body req =
     Resolves \<lparr>status = code, statusText = text, data = body\<rparr>"

definition upstream_down :: upstream where
  "upstream_down req = Rejects (AxiosError ''Network Error'')"

definition upstream_not_found :: upstream where
  "upstream_not_found req = Rejects (AxiosError ''Request failed with status code 404'')"

definition upstream_latest_down :: "js_value \<Rightarrow> upstream" where
  "upstream_latest_down body req =
     (if url req = ''/tokens/latest'' then Rejects (AxiosError ''Network Error'')
      else Resolves \<lparr>status = 200, statusText = ''OK'', data = body\<rparr>)"

definition no_arguments :: js_object where
  "no_arguments = Map.empty"

section \<open>Supporting lemmas\<close>

subsection \<open>Printing numbers\<close>

lemma number_404: "number_to_string 404 = ''404''"
  by (simp add: number_to_string_def string_of_nat.simps)

lemma sdk_internal: "sdk_format InternalError m = ''MCP error -32603: '' @ m"
  by (simp add: sdk_format_def error_number_def)

subsection \<open>The names on both sides\<close>

lemma tool_names_eq:
  "tool_names =
    [''get_token_information'', ''get_token_information_by_pool'', ''get_token_holders_top'',
     ''get_token_ath'', ''get_tokens_created_by_wallet'', ''search_tokens'',
     ''get_latest_tokens'', ''get_trending_tokens'', ''get_trending_tokens_timeframe'',
     ''get_tokens_volume'', ''get_tokens_multi_all'', ''get_tokens_multi_graduated'',
     ''get_token_price'', ''get_token_price_history'', ''get_token_price_history_timestamp'',
     ''get_tokens_price_multi'', ''get_wallet_tokens'', ''get_wallet_tokens_basic'',
     ''get_wallet_tokens_page'', ''get_wallet_trades'', ''get_trades_token'',
     ''get_trades_token_pool'', ''get_trades_token_pool_owner'', ''get_trades_token_by_wallet'',
     ''get_chart_token'', ''get_chart_token_pool'', ''get_pnl_wallet'', ''get_first_buyers'',
     ''get_pnl_wallet_token'', ''get_top_traders_all'', ''get_top_traders_token'',
     ''get_stats_token_pool'', ''get_stats_token'']"
  by (simp add: tool_names_def tools_def)

lemma case_labels_eq:
  "case_labels =
    [''get_token_information'', ''get_token_information_by_pool'', ''get_token_holders_top'',
     ''get_token_ath'', ''get_tokens_created_by_wallet'', ''search_tokens'',
     ''get_latest_tokens'', ''get_trending_tokens'', ''get_trending_tokens_timeframe'',
     ''get_tokens_volume'', ''get_tokens_multi_all'', ''get_tokens_multi_graduated'']"
  by (simp add: case_labels_def switch_cases_def)

lemma distinct_tool_names: "distinct tool_names"
  unfolding tool_names_eq by simp

lemma distinct_case_labels: "distinct case_labels"
  unfolding case_labels_eq by simp

lemma labels_in_catalog: "set case_labels \<subseteq> set tool_names"
  unfolding case_labels_eq tool_names_eq by simp

lemma unknown_not_label: "n \<notin> set tool_names \<Longrightarrow> n \<notin> set case_labels"
  using labels_in_catalog by blast

lemma label_cases:
  "n \<in> set case_labels \<Longrightarrow>
     n = ''get_token_information'' \<or> n = ''get_token_information_by_pool'' \<or>
     n = ''get_token_holders_top'' \<or> n = ''get_token_ath'' \<or>
     n = ''get_tokens_created_by_wallet'' \<or> n = ''search_tokens'' \<or>
     n = ''get_latest_tokens'' \<or> n = ''get_trending_tokens'' \<or>
     n = ''get_trending_tokens_timeframe'' \<or> n = ''get_tokens_volume'' \<or>
     n = ''get_tokens_multi_all'' \<or> n = ''get_tokens_multi_graduated''"
  unfolding case_labels_eq by simp

subsection \<open>A guarded request\<close>

lemma try_catch_never_normal: "try_catch (try_block up req) (catch_clause fmt) \<noteq> Normal"
  by (simp add: try_catch_def try_block_def catch_clause_def status_check_def
           split: axios_outcome.split completion.split)

lemma guarded_get_never_normal: "fst (guarded_get (catch_clause fmt) ax up path ps) \<noteq> Normal"
  by (simp add: guarded_get_def Let_def try_catch_never_normal)

lemma guarded_get_requests: "snd (guarded_get h ax up path ps) = [axios_get ax path ps]"
  by (simp add: guarded_get_def Let_def)

lemma guarded_get_result:
  "fst (guarded_get h ax up path ps) = try_catch (try_block up (axios_get ax path ps)) h"
  by (simp add: guarded_get_def Let_def)

lemma destructure_guarded_never_normal:
  "fst (destructure a k (\<lambda>a. guarded_get (catch_clause fmt) ax up (path a) (ps a))) \<noteq> Normal"
  by (simp add: destructure_def guarded_get_never_normal split: option.split)

text \<open>Every block but two leaves the switch: it returns or throws.\<close>

lemma never_normal:
  "fst (get_token_information fmt ax up a) \<noteq> Normal"
  "fst (get_token_information_by_pool fmt ax up a) \<noteq> Normal"
  "fst (get_token_holders_top fmt ax up a) \<noteq> Normal"
  "fst (get_token_ath fmt ax up a) \<noteq> Normal"
  "fst (get_tokens_created_by_wallet fmt ax up a) \<noteq> Normal"
  "fst (search_tokens fmt ax up a) \<noteq> Normal"
  "fst (get_trending_tokens fmt ax up a) \<noteq> Normal"
  "fst (get_trending_tokens_timeframe fmt ax up a) \<noteq> Normal"
  "fst (get_tokens_volume fmt ax up a) \<noteq> Normal"
  "fst (get_tokens_multi_all fmt ax up a) \<noteq> Normal"
  unfolding get_token_information_def get_token_information_by_pool_def
    get_token_holders_top_def get_token_ath_def get_tokens_created_by_wallet_def
    search_tokens_def get_trending_tokens_def get_trending_tokens_timeframe_def
    get_tokens_volume_def get_tokens_multi_all_def
  by (rule destructure_guarded_never_normal guarded_get_never_normal)+

subsection \<open>Where the switch goes\<close>

lemma run_blocks_stop:
  "fst (b fmt ax up a) \<noteq> Normal \<Longrightarrow> run_blocks (b # bs) fmt ax up a = b fmt ax up a"
  by (cases "b fmt ax up a") (auto split: completion.split)

lemma switch_no_label:
  "n \<notin> set (map fst cs) \<Longrightarrow> switch cs n fmt ax up a = (Normal, [])"
  by (induction cs) auto

lemma dispatch_no_label:
  "n \<notin> set case_labels \<Longrightarrow> call_tool_handler fmt ax up n a = (Normal, [])"
  by (simp add: call_tool_handler_def case_labels_def switch_no_label)

lemma dispatch:
  "call_tool_handler fmt ax up ''get_token_information'' a = get_token_information fmt ax up a"
  "call_tool_handler fmt ax up ''get_token_information_by_pool'' a = get_token_information_by_pool fmt ax up a"
  "call_tool_handler fmt ax up ''get_token_holders_top'' a = get_token_holders_top fmt ax up a"
  "call_tool_handler fmt ax up ''get_token_ath'' a = get_token_ath fmt ax up a"
  "call_tool_handler fmt ax up ''get_tokens_created_by_wallet'' a = get_tokens_created_by_wallet fmt ax up a"
  "call_tool_handler fmt ax up ''search_tokens'' a = search_tokens fmt ax up a"
  "call_tool_handler fmt ax up ''get_trending_tokens'' a = get_trending_tokens fmt ax up a"
  "call_tool_handler fmt ax up ''get_trending_tokens_timeframe'' a = get_trending_tokens_timeframe fmt ax up a"
  "call_tool_handler fmt ax up ''get_tokens_volume'' a = get_tokens_volume fmt ax up a"
  "call_tool_handler fmt ax up ''get_tokens_multi_all'' a = get_tokens_multi_all fmt ax up a"
  unfolding call_tool_handler_def switch_cases_def
  by (simp_all add: run_blocks_stop never_normal del: run_blocks.simps)

text \<open>
  \<open>get_latest_tokens\<close> can end normally (its \<open>catch\<close> does nothing with a client error);
  control then runs on into the block of \<open>get_trending_tokens\<close>.
\<close>

lemma dispatch_latest:
  "call_tool_handler fmt ax up ''get_latest_tokens'' a =
     (case get_latest_tokens fmt ax up a of
        (Normal, reqs) \<Rightarrow>
          (case get_trending_tokens fmt ax up a of (c, reqs') \<Rightarrow> (c, reqs @ reqs'))
      | (c, reqs) \<Rightarrow> (c, reqs))"
proof -
  have rest: "run_blocks
         [get_trending_tokens, get_trending_tokens_timeframe, get_tokens_volume,
          get_tokens_multi_all, get_tokens_multi_graduated] fmt ax up a =
        get_trending_tokens fmt ax up a"
    by (rule run_blocks_stop) (rule never_normal)
  show ?thesis
    unfolding call_tool_handler_def switch_cases_def
    apply (simp del: run_blocks.simps)
    apply (subst run_blocks.simps(2))
    unfolding rest
    apply (rule refl)
    done
qed

lemma dispatch_graduated:
  "call_tool_handler fmt ax up ''get_tokens_multi_graduated'' a =
     get_tokens_multi_graduated fmt ax up a"
  unfolding call_tool_handler_def switch_cases_def
  by (simp split: prod.split completion.split)

subsection \<open>The requests of a call\<close>

lemma block_requests:
  "set (snd (get_token_information fmt ax up a)) \<subseteq> {r. config r = ax \<and> verb r = GET}"
  "set (snd (get_token_information_by_pool fmt ax up a)) \<subseteq> {r. config r = ax \<and> verb r = GET}"
  "set (snd (get_token_holders_top fmt ax up a)) \<subseteq> {r. config r = ax \<and> verb r = GET}"
  "set (snd (get_token_ath fmt ax up a)) \<subseteq> {r. config r = ax \<and> verb r = GET}"
  "set (snd (get_tokens_created_by_wallet fmt ax up a)) \<subseteq> {r. config r = ax \<and> verb r = GET}"
  "set (snd (search_tokens fmt ax up a)) \<subseteq> {r. config r = ax \<and> verb r = GET}"
  "set (snd (get_latest_tokens fmt ax up a)) \<subseteq> {r. config r = ax \<and> verb r = GET}"
  "set (snd (get_trending_tokens fmt ax up a)) \<subseteq> {r. config r = ax \<and> verb r = GET}"
  "set (snd (get_trending_tokens_timeframe fmt ax up a)) \<subseteq> {r. config r = ax \<and> verb r = GET}"
  "set (snd (get_tokens_volume fmt ax up a)) \<subseteq> {r. config r = ax \<and> verb r = GET}"
  "set (snd (get_tokens_multi_all fmt ax up a)) \<subseteq> {r. config r = ax \<and> verb r = GET}"
  "set (snd (get_tokens_multi_graduated fmt ax up a)) \<subseteq> {r. config r = ax \<and> verb r = GET}"
  unfolding get_token_information_def get_token_information_by_pool_def
    get_token_holders_top_def get_token_ath_def get_tokens_created_by_wallet_def
    search_tokens_def get_latest_tokens_def get_trending_tokens_def
    get_trending_tokens_timeframe_def get_tokens_volume_def get_tokens_multi_all_def
    get_tokens_multi_graduated_def
  by (simp_all add: destructure_def guarded_get_requests axios_get_def Let_def split: option.split)

lemma run_blocks_requests:
  "(\<And>b. b \<in> set bs \<Longrightarrow> set (snd (b fmt ax up a)) \<subseteq> S) \<Longrightarrow>
   set (snd (run_blocks bs fmt ax up a)) \<subseteq> S"
proof (induction bs)
  case Nil
  then show ?case by simp
next
  case (Cons b bs)
  have here: "set (snd (b fmt ax up a)) \<subseteq> S" using Cons.prems by simp
  have rest: "set (snd (run_blocks bs fmt ax up a)) \<subseteq> S" using Cons by simp
  show ?case
  proof (cases "b fmt ax up a")
    case (Pair c reqs)
    with here rest show ?thesis
      by (cases c; cases "run_blocks bs fmt ax up a") auto
  qed
qed

lemma switch_requests:
  "(\<And>b. b \<in> snd ` set cs \<Longrightarrow> set (snd (b fmt ax up a)) \<subseteq> S) \<Longrightarrow>
   set (snd (switch cs n fmt ax up a)) \<subseteq> S"
proof (induction cs)
  case Nil
  then show ?case by simp
next
  case (Cons lb cs)
  obtain l b where lb: "lb = (l, b)" by (cases lb)
  show ?case
  proof (cases "n = l")
    case True
    have "set (snd (run_blocks (b # map snd cs) fmt ax up a)) \<subseteq> S"
      by (rule run_blocks_requests) (use Cons.prems lb in auto)
    with True lb show ?thesis by simp
  next
    case False
    with Cons lb show ?thesis by simp
  qed
qed

lemma all_blocks_requests:
  "list_all (\<lambda>b. set (snd (b fmt ax up a)) \<subseteq> {r. config r = ax \<and> verb r = GET})
     (map snd switch_cases)"
  unfolding switch_cases_def by (simp add: block_requests)

lemma handler_requests:
  "set (snd (call_tool_handler fmt ax up n a)) \<subseteq> {r. config r = ax \<and> verb r = GET}"
  unfolding call_tool_handler_def
proof (rule switch_requests)
  fix b assume "b \<in> snd ` set switch_cases"
  then have "b \<in> set (map snd switch_cases)" by simp
  with all_blocks_requests [of fmt ax up a]
  show "set (snd (b fmt ax up a)) \<subseteq> {r. config r = ax \<and> verb r = GET}"
    unfolding list_all_iff by blast
qed

lemma latest_when_unreachable:
  "snd (call_tool_handler sdk_format (axiosInstance ''key'') upstream_down
          ''get_latest_tokens'' (Some no_arguments))
     = [axios_get (axiosInstance ''key'') ''/tokens/latest'' [(''page'', JUndefined)],
        axios_get (axiosInstance ''key'') ''/tokens/trending'' []]"
  by (simp add: dispatch_latest get_latest_tokens_def get_trending_tokens_def destructure_def
        guarded_get_def Let_def try_catch_def try_block_def catch_clause_latest_def
        catch_clause_def isAxiosError_def upstream_down_def
        property_def no_arguments_def)

subsection \<open>How a guarded request ends\<close>

lemma guarded_completion:
  "try_catch (try_block up req) (catch_clause fmt) =
     (case up req of
        Resolves response \<Rightarrow>
          if status response = 200 then Return (Json_content (data response))
          else Throw (McpError InternalError
                 (''Unknown error: '' @ fmt InternalError
                    (''Solana Tracker API returned status code: '' @
                       number_to_string (status response) @ '': '' @ statusText response)))
      | Rejects e \<Rightarrow>
          Throw (McpError InternalError
            ((if isAxiosError e then ''Solana Tracker API error: '' else ''Unknown error: '')
               @ message fmt e)))"
  by (simp add: try_catch_def try_block_def catch_clause_def status_check_def isAxiosError_def
        message_def split: axios_outcome.split)

lemma guarded_request_shape:
  assumes "h = guarded_get (catch_clause fmt) ax up path ps"
  shows "\<exists>req. snd h = [req] \<and> verb req = GET \<and> url req = path \<and> params req = ps \<and>
     fst h =
       (case up req of
          Resolves response \<Rightarrow>
            if status response = 200 then Return (Json_content (data response))
            else Throw (McpError InternalError
                   (''Unknown error: '' @ fmt InternalError
                      (''Solana Tracker API returned status code: '' @
                         number_to_string (status response) @ '': '' @ statusText response)))
        | Rejects e \<Rightarrow>
            Throw (McpError InternalError
              ((if isAxiosError e then ''Solana Tracker API error: '' else ''Unknown error: '')
                 @ message fmt e)))"
  unfolding assms guarded_get_requests guarded_get_result guarded_completion
  by (simp add: axios_get_def)

lemma guarded_throws_internal:
  "fst (guarded_get (catch_clause fmt) ax up path ps) = Throw e \<Longrightarrow>
   \<exists>m. e = McpError InternalError m"
  by (auto simp: guarded_get_result guarded_completion split: axios_outcome.splits if_splits)

lemma latest_throws_internal:
  "fst (guarded_get (catch_clause_latest fmt) ax up path ps) = Throw e \<Longrightarrow>
   \<exists>m. e = McpError InternalError m"
  by (auto simp: guarded_get_result try_catch_def try_block_def catch_clause_latest_def
        status_check_def split: axios_outcome.splits if_splits completion.splits)

lemma guarded_200:
  assumes "guarded_get h ax up path ps = (c, reqs)"
    and "up (last reqs) = Resolves response" and "status response = 200"
  shows "c = Return (Json_content (data response))"
  using assms
  by (auto simp: guarded_get_def Let_def try_catch_def try_block_def status_check_def)

lemma destructure_200:
  assumes "destructure arguments k (\<lambda>a. guarded_get h ax up (path a) (ps a)) = (c, reqs)"
    and "reqs \<noteq> []"
    and "up (last reqs) = Resolves response" and "status response = 200"
  shows "c = Return (Json_content (data response))"
proof (cases arguments)
  case None
  with assms(1,2) show ?thesis by (simp add: destructure_def)
next
  case (Some a)
  with assms(1) have "guarded_get h ax up (path a) (ps a) = (c, reqs)"
    by (simp add: destructure_def)
  then show ?thesis using assms(3,4) by (rule guarded_200)
qed

subsection \<open>Errors of the case blocks and of the handler\<close>

lemma block_throws_internal:
  "fst (get_token_information fmt ax up (Some a)) = Throw e \<Longrightarrow> \<exists>m. e = McpError InternalError m"
  "fst (get_token_information_by_pool fmt ax up (Some a)) = Throw e \<Longrightarrow> \<exists>m. e = McpError InternalError m"
  "fst (get_token_holders_top fmt ax up (Some a)) = Throw e \<Longrightarrow> \<exists>m. e = McpError InternalError m"
  "fst (get_token_ath fmt ax up (Some a)) = Throw e \<Longrightarrow> \<exists>m. e = McpError InternalError m"
  "fst (get_tokens_created_by_wallet fmt ax up (Some a)) = Throw e \<Longrightarrow> \<exists>m. e = McpError InternalError m"
  "fst (search_tokens fmt ax up (Some a)) = Throw e \<Longrightarrow> \<exists>m. e = McpError InternalError m"
  "fst (get_latest_tokens fmt ax up (Some a)) = Throw e \<Longrightarrow> \<exists>m. e = McpError InternalError m"
  "fst (get_trending_tokens fmt ax up arguments) = Throw e \<Longrightarrow> \<exists>m. e = McpError InternalError m"
  "fst (get_trending_tokens_timeframe fmt ax up (Some a)) = Throw e \<Longrightarrow> \<exists>m. e = McpError InternalError m"
  "fst (get_tokens_volume fmt ax up arguments) = Throw e \<Longrightarrow> \<exists>m. e = McpError InternalError m"
  "fst (get_tokens_multi_all fmt ax up arguments) = Throw e \<Longrightarrow> \<exists>m. e = McpError InternalError m"
  unfolding get_token_information_def get_token_information_by_pool_def
    get_token_holders_top_def get_token_ath_def get_tokens_created_by_wallet_def
    search_tokens_def get_latest_tokens_def get_trending_tokens_def
    get_trending_tokens_timeframe_def get_tokens_volume_def get_tokens_multi_all_def
    destructure_def option.case
  by (erule guarded_throws_internal latest_throws_internal)+

lemma latest_handler_throws_internal:
  assumes "fst (call_tool_handler fmt ax up ''get_latest_tokens'' (Some a)) = Throw e"
  shows "\<exists>m. e = McpError InternalError m"
proof (cases "get_latest_tokens fmt ax up (Some a)")
  case (Pair c reqs)
  show ?thesis
  proof (cases c)
    case Normal
    with Pair assms have "fst (get_trending_tokens fmt ax up (Some a)) = Throw e"
      by (simp add: dispatch_latest split: prod.splits)
    then show ?thesis by (rule block_throws_internal)
  next
    case (Return x)
    with Pair assms show ?thesis by (simp add: dispatch_latest)
  next
    case (Throw e')
    with Pair assms have "fst (get_latest_tokens fmt ax up (Some a)) = Throw e"
      by (simp add: dispatch_latest)
    then show ?thesis by (rule block_throws_internal)
  qed
qed

subsection \<open>A status 200 in the complete cases\<close>

lemma latest_200:
  assumes "call_tool_handler fmt ax up ''get_latest_tokens'' arguments = (c, reqs)"
    and "reqs \<noteq> []"
    and "up (last reqs) = Resolves response" and "status response = 200"
  shows "c = Return (Json_content (data response))"
proof (cases "get_latest_tokens fmt ax up arguments")
  case (Pair c1 reqs1)
  show ?thesis
  proof (cases "c1 = Normal")
    case False
    with Pair assms(1) have "get_latest_tokens fmt ax up arguments = (c, reqs)"
      by (simp add: dispatch_latest split: completion.splits)
    then show ?thesis using assms(2-4) unfolding get_latest_tokens_def by (rule destructure_200)
  next
    case True
    obtain c2 reqs2 where t: "get_trending_tokens fmt ax up arguments = (c2, reqs2)"
      by (cases "get_trending_tokens fmt ax up arguments")
    from t have reqs2: "reqs2 = [axios_get ax ''/tokens/trending'' []]"
      by (simp add: get_trending_tokens_def guarded_get_def Let_def)
    from True Pair t assms(1) have eq: "c = c2" "reqs = reqs1 @ reqs2"
      by (simp_all add: dispatch_latest)
    from eq(2) reqs2 have "last reqs = last reqs2" by simp
    with assms(3) have u: "up (last reqs2) = Resolves response" by simp
    from guarded_200 [OF t [unfolded get_trending_tokens_def] u assms(4)] eq(1)
    show ?thesis by simp
  qed
qed

lemma complete_cases_return_body:
  assumes "n \<in> set case_labels" and "n \<noteq> ''get_tokens_multi_graduated''"
    and "call_tool_handler fmt ax up n arguments = (c, reqs)" and "reqs \<noteq> []"
    and "up (last reqs) = Resolves response" and "status response = 200"
  shows "c = Return (Json_content (data response))"
proof -
  from label_cases [OF assms(1)] show ?thesis
  proof (elim disjE)
    assume n: "n = ''get_token_information''"
    from assms(3) have "get_token_information fmt ax up arguments = (c, reqs)"
      unfolding n dispatch .
    then show ?thesis using assms(4-6) unfolding get_token_information_def by (rule destructure_200)
  next
    assume n: "n = ''get_token_information_by_pool''"
    from assms(3) have "get_token_information_by_pool fmt ax up arguments = (c, reqs)"
      unfolding n dispatch .
    then show ?thesis using assms(4-6) unfolding get_token_information_by_pool_def by (rule destructure_200)
  next
    assume n: "n = ''get_token_holders_top''"
    from assms(3) have "get_token_holders_top fmt ax up arguments = (c, reqs)"
      unfolding n dispatch .
    then show ?thesis using assms(4-6) unfolding get_token_holders_top_def by (rule destructure_200)
  next
    assume n: "n = ''get_token_ath''"
    from assms(3) have "get_token_ath fmt ax up arguments = (c, reqs)"
      unfolding n dispatch .
    then show ?thesis using assms(4-6) unfolding get_token_ath_def by (rule destructure_200)
  next
    assume n: "n = ''get_tokens_created_by_wallet''"
    from assms(3) have "get_tokens_created_by_wallet fmt ax up arguments = (c, reqs)"
      unfolding n dispatch .
    then show ?thesis using assms(4-6) unfolding get_tokens_created_by_wallet_def by (rule destructure_200)
  next
    assume n: "n = ''search_tokens''"
    from assms(3) have "search_tokens fmt ax up arguments = (c, reqs)"
      unfolding n dispatch .
    then show ?thesis using assms(4-6) unfolding search_tokens_def by (rule destructure_200)
  next
    assume n: "n = ''get_latest_tokens''"
    from assms(3-6) show ?thesis unfolding n by (rule latest_200)
  next
    assume n: "n = ''get_trending_tokens''"
    from assms(3) have "get_trending_tokens fmt ax up arguments = (c, reqs)"
      unfolding n dispatch .
    then show ?thesis using assms(5,6) unfolding get_trending_tokens_def by (rule guarded_200)
  next
    assume n: "n = ''get_trending_tokens_timeframe''"
    from assms(3) have "get_trending_tokens_timeframe fmt ax up arguments = (c, reqs)"
      unfolding n dispatch .
    then show ?thesis using assms(4-6) unfolding get_trending_tokens_timeframe_def by (rule destructure_200)
  next
    assume n: "n = ''get_tokens_volume''"
    from assms(3) have "get_tokens_volume fmt ax up arguments = (c, reqs)"
      unfolding n dispatch .
    then show ?thesis using assms(5,6) unfolding get_tokens_volume_def by (rule guarded_200)
  next
    assume n: "n = ''get_tokens_multi_all''"
    from assms(3) have "get_tokens_multi_all fmt ax up arguments = (c, reqs)"
      unfolding n dispatch .
    then show ?thesis using assms(5,6) unfolding get_tokens_multi_all_def by (rule guarded_200)
  next
    assume n: "n = ''get_tokens_multi_graduated''"
    with assms(2) show ?thesis by (simp only: not_False_eq_True simp_thms)
  qed
qed

text \<open>
  The spec's scenario for \<open>get_token_information\<close>: one GET of \<open>/tokens/ABC123\<close> with
  the key, and the body of the 200 comes back as it is.
\<close>

lemma scenario_token_information:
  "call_tool_handler sdk_format (axiosInstance ''key'')
     (upstream_answers 200 ''OK'' (JObj [(''symbol'', JStr ''ABC'')]))
     ''get_token_information'' (Some [''tokenAddress'' \<mapsto> JStr ''ABC123''])
   = (Return (Json_content (JObj [(''symbol'', JStr ''ABC'')])),
      [\<lparr>config = \<lparr>baseURL = ''https://data.solanatracker.io'',
                    headers = [(''x-api-key'', ''key'')]\<rparr>,
        verb = GET, url = ''/tokens/ABC123'', params = []\<rparr>])"
  by (simp add: dispatch get_token_information_def destructure_def guarded_get_def Let_def
        guarded_completion upstream_answers_def axios_get_def axiosInstance_def property_def)

subsection \<open>Paths\<close>



subsection \<open>Required parameters of the dispatched tools\<close>

lemma catalog_required:
  "map (\<lambda>t. (name t, required_of t)) tools =
    [(''get_token_information'', [''tokenAddress'']),
     (''get_token_information_by_pool'', [''poolAddress'']),
     (''get_token_holders_top'', [''tokenAddress'']),
     (''get_token_ath'', [''tokenAddress'']),
     (''get_tokens_created_by_wallet'', [''wallet'']),
     (''search_tokens'', [''query'']),
     (''get_latest_tokens'', []),
     (''get_trending_tokens'', []),
     (''get_trending_tokens_timeframe'', [''timeframe'']),
     (''get_tokens_volume'', []),
     (''get_tokens_multi_all'', []),
     (''get_tokens_multi_graduated'', []),
     (''get_token_price'', [''token'']),
     (''get_token_price_history'', [''token'']),
     (''get_token_price_history_timestamp'', [''token'', ''timestamp'']),
     (''get_tokens_price_multi'', [''tokens'']),
     (''get_wallet_tokens'', [''owner'']),
     (''get_wallet_tokens_basic'', [''owner'']),
     (''get_wallet_tokens_page'', [''owner'', ''page'']),
     (''get_wallet_trades'', [''owner'']),
     (''get_trades_token'', [''tokenAddress'']),
     (''get_trades_token_pool'', [''tokenAddress'', ''poolAddress'']),
     (''get_trades_token_pool_owner'', [''tokenAddress'', ''poolAddress'', ''owner'']),
     (''get_trades_token_by_wallet'', [''tokenAddress'', ''owner'']),
     (''get_chart_token'', [''token'']),
     (''get_chart_token_pool'', [''token'', ''pool'']),
     (''get_pnl_wallet'', [''wallet'']),
     (''get_first_buyers'', [''token'']),
     (''get_pnl_wallet_token'', [''wallet'', ''token'']),
     (''get_top_traders_all'', []),
     (''get_top_traders_token'', [''token'']),
     (''get_stats_token_pool'', [''token'', ''pool'']),
     (''get_stats_token'', [''token''])]"
  by (simp add: tools_def required_of_def)

lemma pair_in_flat:
  "(n, rs) \<in> set L \<Longrightarrow> p \<in> set rs \<Longrightarrow>
   (n, p) \<in> set (concat (map (\<lambda>(n, rs). map (Pair n) rs) L))"
  by (induction L) auto

lemma required_of_dispatched:
  assumes "t \<in> set tools" and "name t \<in> set case_labels" and "p \<in> set (required_of t)"
  shows "(name t, p) \<in> set
     [(''get_token_information'', ''tokenAddress''),
      (''get_token_information_by_pool'', ''poolAddress''),
      (''get_token_holders_top'', ''tokenAddress''),
      (''get_token_ath'', ''tokenAddress''),
      (''get_tokens_created_by_wallet'', ''wallet''),
      (''search_tokens'', ''query''),
      (''get_trending_tokens_timeframe'', ''timeframe'')]"
proof -
  define n where "n = name t"
  define rs where "rs = required_of t"
  have "(name t, required_of t) \<in> (\<lambda>t. (name t, required_of t)) ` set tools"
    using assms(1) by (rule imageI)
  then have cat: "(n, rs) \<in> set (map (\<lambda>t. (name t, required_of t)) tools)"
    by (simp only: set_map n_def rs_def)
  have lab: "n \<in> set case_labels" using assms(2) by (simp only: n_def)
  have req: "p \<in> set rs" using assms(3) by (simp only: rs_def)
  have dispatched: "filter (\<lambda>(n, rs). n \<in> set case_labels \<and> rs \<noteq> [])
          (map (\<lambda>t. (name t, required_of t)) tools) =
     [(''get_token_information'', [''tokenAddress'']),
      (''get_token_information_by_pool'', [''poolAddress'']),
      (''get_token_holders_top'', [''tokenAddress'']),
      (''get_token_ath'', [''tokenAddress'']),
      (''get_tokens_created_by_wallet'', [''wallet'']),
      (''search_tokens'', [''query'']),
      (''get_trending_tokens_timeframe'', [''timeframe''])]"
    unfolding catalog_required case_labels_eq by simp
  from req have "rs \<noteq> []" by auto
  with cat lab have "(n, rs) \<in> set (filter (\<lambda>(n, rs). n \<in> set case_labels \<and> rs \<noteq> [])
          (map (\<lambda>t. (name t, required_of t)) tools))"
    by (simp only: set_filter mem_Collect_eq case_prod_conv simp_thms)
  then have "(n, p) \<in> set (concat (map (\<lambda>(n, rs). map (Pair n) rs)
     [(''get_token_information'', [''tokenAddress'']),
      (''get_token_information_by_pool'', [''poolAddress'']),
      (''get_token_holders_top'', [''tokenAddress'']),
      (''get_token_ath'', [''tokenAddress'']),
      (''get_tokens_created_by_wallet'', [''wallet'']),
      (''search_tokens'', [''query'']),
      (''get_trending_tokens_timeframe'', [''timeframe''])]))"
    unfolding dispatched using req by (rule pair_in_flat)
  then have "(n, p) \<in> set
     [(''get_token_information'', ''tokenAddress''),
      (''get_token_information_by_pool'', ''poolAddress''),
      (''get_token_holders_top'', ''tokenAddress''),
      (''get_token_ath'', ''tokenAddress''),
      (''get_tokens_created_by_wallet'', ''wallet''),
      (''search_tokens'', ''query''),
      (''get_trending_tokens_timeframe'', ''timeframe'')]"
    by (simp only: list.map concat.simps case_prod_conv append.simps)
  then show ?thesis by (simp only: n_def)
qed

lemma pair_cases:
  "(n, p) \<in> set
     [(''get_token_information'', ''tokenAddress''),
      (''get_token_information_by_pool'', ''poolAddress''),
      (''get_token_holders_top'', ''tokenAddress''),
      (''get_token_ath'', ''tokenAddress''),
      (''get_tokens_created_by_wallet'', ''wallet''),
      (''search_tokens'', ''query''),
      (''get_trending_tokens_timeframe'', ''timeframe'')] \<Longrightarrow>
   n = ''get_token_information'' \<and> p = ''tokenAddress'' \<or>
   n = ''get_token_information_by_pool'' \<and> p = ''poolAddress'' \<or>
   n = ''get_token_holders_top'' \<and> p = ''tokenAddress'' \<or>
   n = ''get_token_ath'' \<and> p = ''tokenAddress'' \<or>
   n = ''get_tokens_created_by_wallet'' \<and> p = ''wallet'' \<or>
   n = ''search_tokens'' \<and> p = ''query'' \<or>
   n = ''get_trending_tokens_timeframe'' \<and> p = ''timeframe''"
  by (simp only: list.set insert_iff empty_iff prod.inject simp_thms)

subsection \<open>The handler reads the upstream at its own requests only\<close>

lemma guarded_get_local:
  "same_answers up up' (snd (guarded_get h ax up path ps)) \<Longrightarrow>
   guarded_get h ax up' path ps = guarded_get h ax up path ps"
  by (simp add: same_answers_def guarded_get_def Let_def try_block_def)

lemma destructure_local:
  "same_answers up up' (snd (destructure arguments k (\<lambda>a. guarded_get h ax up (path a) (ps a)))) \<Longrightarrow>
   destructure arguments k (\<lambda>a. guarded_get h ax up' (path a) (ps a))
     = destructure arguments k (\<lambda>a. guarded_get h ax up (path a) (ps a))"
  by (cases arguments) (simp_all add: destructure_def guarded_get_local)

lemma graduated_local:
  "same_answers up up' (snd (get_tokens_multi_graduated fmt ax up arguments)) \<Longrightarrow>
   get_tokens_multi_graduated fmt ax up' arguments = get_tokens_multi_graduated fmt ax up arguments"
  by (simp add: same_answers_def get_tokens_multi_graduated_def Let_def)

lemma block_local:
  "same_answers up up' (snd (get_token_information fmt ax up a)) \<Longrightarrow>
     get_token_information fmt ax up' a = get_token_information fmt ax up a"
  "same_answers up up' (snd (get_token_information_by_pool fmt ax up a)) \<Longrightarrow>
     get_token_information_by_pool fmt ax up' a = get_token_information_by_pool fmt ax up a"
  "same_answers up up' (snd (get_token_holders_top fmt ax up a)) \<Longrightarrow>
     get_token_holders_top fmt ax up' a = get_token_holders_top fmt ax up a"
  "same_answers up up' (snd (get_token_ath fmt ax up a)) \<Longrightarrow>
     get_token_ath fmt ax up' a = get_token_ath fmt ax up a"
  "same_answers up up' (snd (get_tokens_created_by_wallet fmt ax up a)) \<Longrightarrow>
     get_tokens_created_by_wallet fmt ax up' a = get_tokens_created_by_wallet fmt ax up a"
  "same_answers up up' (snd (search_tokens fmt ax up a)) \<Longrightarrow>
     search_tokens fmt ax up' a = search_tokens fmt ax up a"
  "same_answers up up' (snd (get_latest_tokens fmt ax up a)) \<Longrightarrow>
     get_latest_tokens fmt ax up' a = get_latest_tokens fmt ax up a"
  "same_answers up up' (snd (get_trending_tokens fmt ax up a)) \<Longrightarrow>
     get_trending_tokens fmt ax up' a = get_trending_tokens fmt ax up a"
  "same_answers up up' (snd (get_trending_tokens_timeframe fmt ax up a)) \<Longrightarrow>
     get_trending_tokens_timeframe fmt ax up' a = get_trending_tokens_timeframe fmt ax up a"
  "same_answers up up' (snd (get_tokens_volume fmt ax up a)) \<Longrightarrow>
     get_tokens_volume fmt ax up' a = get_tokens_volume fmt ax up a"
  "same_answers up up' (snd (get_tokens_multi_all fmt ax up a)) \<Longrightarrow>
     get_tokens_multi_all fmt ax up' a = get_tokens_multi_all fmt ax up a"
  unfolding get_token_information_def get_token_information_by_pool_def
    get_token_holders_top_def get_token_ath_def get_tokens_created_by_wallet_def
    search_tokens_def get_latest_tokens_def get_trending_tokens_def
    get_trending_tokens_timeframe_def get_tokens_volume_def get_tokens_multi_all_def
  by (erule destructure_local guarded_get_local)+

lemma all_blocks_local:
  "list_all (\<lambda>b. same_answers up up' (snd (b fmt ax up a)) \<longrightarrow>
                  b fmt ax up' a = b fmt ax up a)
     (map snd switch_cases)"
  unfolding switch_cases_def by (simp add: block_local graduated_local)

lemma same_answers_append:
  "same_answers up up' (xs @ ys) = (same_answers up up' xs \<and> same_answers up up' ys)"
  by (simp add: same_answers_def)

lemma run_blocks_local:
  assumes "\<And>b. b \<in> set bs \<Longrightarrow> same_answers up up' (snd (b fmt ax up a)) \<Longrightarrow>
             b fmt ax up' a = b fmt ax up a"
    and "same_answers up up' (snd (run_blocks bs fmt ax up a))"
  shows "run_blocks bs fmt ax up' a = run_blocks bs fmt ax up a"
  using assms
proof (induction bs)
  case Nil
  then show ?case by simp
next
  case (Cons b bs)
  have b: "same_answers up up' (snd (b fmt ax up a)) \<Longrightarrow> b fmt ax up' a = b fmt ax up a"
    using Cons.prems(1) by simp
  have bs: "\<And>b'. b' \<in> set bs \<Longrightarrow> same_answers up up' (snd (b' fmt ax up a)) \<Longrightarrow>
             b' fmt ax up' a = b' fmt ax up a"
    using Cons.prems(1) by simp
  obtain c reqs where h: "b fmt ax up a = (c, reqs)" by (cases "b fmt ax up a")
  obtain c' reqs' where t: "run_blocks bs fmt ax up a = (c', reqs')"
    by (cases "run_blocks bs fmt ax up a")
  show ?case
  proof (cases "c = Normal")
    case True
    with h t Cons.prems(2) have "same_answers up up' (reqs @ reqs')" by simp
    then have r: "same_answers up up' reqs" and r': "same_answers up up' reqs'"
      by (simp_all add: same_answers_append)
    from b r h have h': "b fmt ax up' a = (c, reqs)" by simp
    have "run_blocks bs fmt ax up' a = run_blocks bs fmt ax up a"
    proof (rule Cons.IH)
      fix b' assume "b' \<in> set bs" and "same_answers up up' (snd (b' fmt ax up a))"
      then show "b' fmt ax up' a = b' fmt ax up a" by (rule bs)
    next
      from r' t show "same_answers up up' (snd (run_blocks bs fmt ax up a))" by simp
    qed
    with t have "run_blocks bs fmt ax up' a = (c', reqs')" by simp
    with True h h' t show ?thesis by simp
  next
    case False
    with h Cons.prems(2) have r: "same_answers up up' reqs"
      by (cases c) simp_all
    from b r h have h': "b fmt ax up' a = (c, reqs)" by simp
    from False h h' show ?thesis by (cases c) simp_all
  qed
qed

lemma switch_local:
  assumes "\<And>b. b \<in> snd ` set cs \<Longrightarrow> same_answers up up' (snd (b fmt ax up a)) \<Longrightarrow>
             b fmt ax up' a = b fmt ax up a"
    and "same_answers up up' (snd (switch cs n fmt ax up a))"
  shows "switch cs n fmt ax up' a = switch cs n fmt ax up a"
  using assms
proof (induction cs)
  case Nil
  then show ?case by simp
next
  case (Cons lb cs)
  obtain l b where lb: "lb = (l, b)" by (cases lb)
  show ?case
  proof (cases "n = l")
    case True
    have "run_blocks (b # map snd cs) fmt ax up' a = run_blocks (b # map snd cs) fmt ax up a"
    proof (rule run_blocks_local)
      fix b' assume "b' \<in> set (b # map snd cs)"
      then have "b' \<in> snd ` set (lb # cs)" using lb by auto
      moreover assume "same_answers up up' (snd (b' fmt ax up a))"
      ultimately show "b' fmt ax up' a = b' fmt ax up a" by (rule Cons.prems(1))
    next
      from Cons.prems(2) True lb
      show "same_answers up up' (snd (run_blocks (b # map snd cs) fmt ax up a))" by simp
    qed
    with True lb show ?thesis by simp
  next
    case False
    have "switch cs n fmt ax up' a = switch cs n fmt ax up a"
    proof (rule Cons.IH)
      fix b' assume "b' \<in> snd ` set cs"
      then have "b' \<in> snd ` set (lb # cs)" by auto
      moreover assume "same_answers up up' (snd (b' fmt ax up a))"
      ultimately show "b' fmt ax up' a = b' fmt ax up a" by (rule Cons.prems(1))
    next
      from Cons.prems(2) False lb
      show "same_answers up up' (snd (switch cs n fmt ax up a))" by simp
    qed
    with False lb show ?thesis by simp
  qed
qed

lemma handler_local:
  assumes "same_answers up up' (snd (call_tool_handler fmt ax up n a))"
  shows "call_tool_handler fmt ax up' n a = call_tool_handler fmt ax up n a"
  unfolding call_tool_handler_def
proof (rule switch_local)
  fix b assume "b \<in> snd ` set switch_cases"
  then have "b \<in> set (map snd switch_cases)" by simp
  moreover assume "same_answers up up' (snd (b fmt ax up a))"
  ultimately show "b fmt ax up' a = b fmt ax up a"
    using all_blocks_local [of up up' fmt ax a] unfolding list_all_iff by blast
next
  from assms show "same_answers up up' (snd (switch switch_cases n fmt ax up a))"
    by (simp add: call_tool_handler_def)
qed

subsection \<open>Serving a sequence\<close>

lemma serve_all_map:
  "serve_all fmt s calls =
     (map (\<lambda>c. call_tool_handler fmt (client s) (upstream_then c) (tool c) (arguments_of c)) calls, s)"
  by (induction calls) (simp_all add: serve_def)

subsection \<open>Calls without an arguments object\<close>

lemma destructuring_pairs:
  "(n, p) \<in> set destructuring_cases \<Longrightarrow>
   n = ''get_token_information'' \<and> p = ''tokenAddress'' \<or>
   n = ''get_token_information_by_pool'' \<and> p = ''poolAddress'' \<or>
   n = ''get_token_holders_top'' \<and> p = ''tokenAddress'' \<or>
   n = ''get_token_ath'' \<and> p = ''tokenAddress'' \<or>
   n = ''get_tokens_created_by_wallet'' \<and> p = ''wallet'' \<or>
   n = ''search_tokens'' \<and> p = ''query'' \<or>
   n = ''get_latest_tokens'' \<and> p = ''page'' \<or>
   n = ''get_trending_tokens_timeframe'' \<and> p = ''timeframe''"
  unfolding destructuring_cases_def
  by (simp only: list.set insert_iff empty_iff prod.inject simp_thms)

lemma without_arguments:
  "call_tool_handler fmt ax up ''get_token_information'' None
     = (Throw (TypeError (cannot_destructure ''tokenAddress'')), [])"
  "call_tool_handler fmt ax up ''get_token_information_by_pool'' None
     = (Throw (TypeError (cannot_destructure ''poolAddress'')), [])"
  "call_tool_handler fmt ax up ''get_token_holders_top'' None
     = (Throw (TypeError (cannot_destructure ''tokenAddress'')), [])"
  "call_tool_handler fmt ax up ''get_token_ath'' None
     = (Throw (TypeError (cannot_destructure ''tokenAddress'')), [])"
  "call_tool_handler fmt ax up ''get_tokens_created_by_wallet'' None
     = (Throw (TypeError (cannot_destructure ''wallet'')), [])"
  "call_tool_handler fmt ax up ''search_tokens'' None
     = (Throw (TypeError (cannot_destructure ''query'')), [])"
  "call_tool_handler fmt ax up ''get_latest_tokens'' None
     = (Throw (TypeError (cannot_destructure ''page'')), [])"
  "call_tool_handler fmt ax up ''get_trending_tokens_timeframe'' None
     = (Throw (TypeError (cannot_destructure ''timeframe'')), [])"
  by (simp_all add: dispatch dispatch_latest get_token_information_def
        get_token_information_by_pool_def get_token_holders_top_def get_token_ath_def
        get_tokens_created_by_wallet_def search_tokens_def get_latest_tokens_def
        get_trending_tokens_timeframe_def destructure_def)

lemma destructuring_without_arguments:
  assumes "(n, p) \<in> set destructuring_cases"
  shows "call_tool_handler fmt ax up n None = (Throw (TypeError (cannot_destructure p)), [])"
  using destructuring_pairs [OF assms]
  by (elim disjE conjE) (simp_all only: without_arguments)

lemma in_destructuring_cases:
  "(''get_token_information'', ''tokenAddress'') \<in> set destructuring_cases"
  "(''get_token_information_by_pool'', ''poolAddress'') \<in> set destructuring_cases"
  "(''get_token_holders_top'', ''tokenAddress'') \<in> set destructuring_cases"
  "(''get_token_ath'', ''tokenAddress'') \<in> set destructuring_cases"
  "(''get_tokens_created_by_wallet'', ''wallet'') \<in> set destructuring_cases"
  "(''search_tokens'', ''query'') \<in> set destructuring_cases"
  "(''get_latest_tokens'', ''page'') \<in> set destructuring_cases"
  "(''get_trending_tokens_timeframe'', ''timeframe'') \<in> set destructuring_cases"
  unfolding destructuring_cases_def by simp_all

subsection \<open>Errors of a call with an arguments object\<close>

lemma throws_internal_with_arguments:
  assumes "n \<noteq> ''get_tokens_multi_graduated''"
    and "fst (call_tool_handler fmt ax up n (Some a)) = Throw e"
  shows "\<exists>m. e = McpError InternalError m"
proof (cases "n \<in> set case_labels")
  case False
  with assms(2) show ?thesis by (simp add: dispatch_no_label)
next
  case True
  from label_cases [OF True] show ?thesis
  proof (elim disjE)
    assume n: "n = ''get_token_information''"
    from assms(2) show ?thesis unfolding n dispatch by (rule block_throws_internal)
  next
    assume n: "n = ''get_token_information_by_pool''"
    from assms(2) show ?thesis unfolding n dispatch by (rule block_throws_internal)
  next
    assume n: "n = ''get_token_holders_top''"
    from assms(2) show ?thesis unfolding n dispatch by (rule block_throws_internal)
  next
    assume n: "n = ''get_token_ath''"
    from assms(2) show ?thesis unfolding n dispatch by (rule block_throws_internal)
  next
    assume n: "n = ''get_tokens_created_by_wallet''"
    from assms(2) show ?thesis unfolding n dispatch by (rule block_throws_internal)
  next
    assume n: "n = ''search_tokens''"
    from assms(2) show ?thesis unfolding n dispatch by (rule block_throws_internal)
  next
    assume n: "n = ''get_latest_tokens''"
    from assms(2) show ?thesis unfolding n by (rule latest_handler_throws_internal)
  next
    assume n: "n = ''get_trending_tokens''"
    from assms(2) show ?thesis unfolding n dispatch by (rule block_throws_internal)
  next
    assume n: "n = ''get_trending_tokens_timeframe''"
    from assms(2) show ?thesis unfolding n dispatch by (rule block_throws_internal)
  next
    assume n: "n = ''get_tokens_volume''"
    from assms(2) show ?thesis unfolding n dispatch by (rule block_throws_internal)
  next
    assume n: "n = ''get_tokens_multi_all''"
    from assms(2) show ?thesis unfolding n dispatch by (rule block_throws_internal)
  next
    assume n: "n = ''get_tokens_multi_graduated''"
    with assms(1) show ?thesis by (simp only: not_False_eq_True simp_thms)
  qed
qed
section \<open>C1: the catalog against the dispatcher\<close>

text \<open>
  Claim C1: the names the list-tools handler returns and the names the call-tool handler
  has a case for are the same set, each name once on either side.

  Both lists are free of repetitions and every case label is a name of the catalog, but
  the catalog has 33 names and the switch 12 cases: \<open>get_token_price\<close>, the first of the
  21 others, is in the catalog and has no case, and a call of it does nothing.
\<close>

theorem catalog_tool_without_case:
  "distinct tool_names \<and> distinct case_labels \<and> set case_labels \<subseteq> set tool_names \<and>
   length tool_names = 33 \<and> length case_labels = 12 \<and>
   ''get_token_price'' \<in> set tool_names \<and> ''get_token_price'' \<notin> set case_labels \<and>
   call_tool_handler fmt ax up ''get_token_price'' arguments = (Normal, [])"
proof -
  have a: "''get_token_price'' \<in> set tool_names" unfolding tool_names_eq by simp
  have b: "''get_token_price'' \<notin> set case_labels" unfolding case_labels_eq by simp
  have c: "length tool_names = 33" unfolding tool_names_eq by simp
  have d: "length case_labels = 12" unfolding case_labels_eq by simp
  from a b c d distinct_tool_names distinct_case_labels labels_in_catalog
    dispatch_no_label [OF b]
  show ?thesis by blast
qed

section \<open>C2: a name that is not a tool\<close>

text \<open>
  Claim C2, as the code has it: for a tool name that is not in the catalog the handler
  issues no request; the switch has no default branch, so the call ends without a
  result and without an error.
\<close>

theorem unknown_tool_no_request:
  "n \<notin> set tool_names \<Longrightarrow> call_tool_handler fmt ax up n arguments = (Normal, [])"
  by (rule dispatch_no_label) (rule unknown_not_label)

theorem unknown_tool_no_request_witness:
  "''get_balance'' \<notin> set tool_names \<and>
   call_tool_handler sdk_format (axiosInstance ''key'') upstream_down ''get_balance'' None
     = (Normal, [])"
proof -
  have h: "''get_balance'' \<notin> set tool_names" unfolding tool_names_eq by simp
  from h unknown_tool_no_request [OF h] show ?thesis by simp
qed

text \<open>
  Claim C2 as stated asks for a failure of kind unknown tool. The call of the spec's
  own scenario, \<open>nonexistent_tool\<close> with an empty arguments object, throws nothing.
\<close>

theorem unknown_tool_counterexample:
  "''nonexistent_tool'' \<notin> set tool_names \<and>
   call_tool_handler sdk_format (axiosInstance ''key'') (upstream_answers 200 ''OK'' JNull)
     ''nonexistent_tool'' (Some no_arguments) = (Normal, [])"
proof -
  have h: "''nonexistent_tool'' \<notin> set case_labels" unfolding case_labels_eq by simp
  have "''nonexistent_tool'' \<notin> set tool_names" unfolding tool_names_eq by simp
  with dispatch_no_label [OF h] show ?thesis by simp
qed

section \<open>C3: a required parameter that is missing\<close>

text \<open>
  Claim C3, as the code has it: no case checks that a required parameter is there. For
  a tool of the catalog that the switch has a case for, called with an arguments object
  that lacks one of its required parameters, the handler still issues exactly one GET.
  The missing value travels as \<open>undefined\<close>: printed into the path, or handed to the
  client as a query parameter. The call then ends as the upstream's answer has it: the
  body on a 200, an \<open>McpError\<close> with code \<open>InternalError\<close> otherwise; there is no error
  for invalid arguments.
\<close>

theorem missing_required_is_not_checked:
  assumes "t \<in> set tools" and "name t \<in> set case_labels"
    and "p \<in> set (required_of t)" and "a p = None"
  shows "\<exists>req. snd (call_tool_handler fmt ax up (name t) (Some a)) = [req] \<and>
     verb req = GET \<and>
     ((\<exists>pre post. url req = pre @ ''undefined'' @ post) \<or> (p, JUndefined) \<in> set (params req)) \<and>
     fst (call_tool_handler fmt ax up (name t) (Some a)) =
       (case up req of
          Resolves response \<Rightarrow>
            if status response = 200 then Return (Json_content (data response))
            else Throw (McpError InternalError
                   (''Unknown error: '' @ fmt InternalError
                      (''Solana Tracker API returned status code: '' @
                         number_to_string (status response) @ '': '' @ statusText response)))
        | Rejects e \<Rightarrow>
            Throw (McpError InternalError
              ((if isAxiosError e then ''Solana Tracker API error: '' else ''Unknown error: '')
                 @ message fmt e)))"
proof -
  let ?goal = ?thesis
  have undef: "to_string (property a p) = ''undefined''" and undef': "property a p = JUndefined"
    using assms(4) by (simp_all add: property_def)
  have shape: ?goal
    if h: "call_tool_handler fmt ax up (name t) (Some a)
        = guarded_get (catch_clause fmt) ax up path ps"
      and m: "(\<exists>pre post. path = pre @ to_string (property a p) @ post) \<or>
              (p, property a p) \<in> set ps"
    for path ps
  proof -
    from guarded_request_shape [OF refl, of fmt ax up path ps] obtain req where
      r: "snd (guarded_get (catch_clause fmt) ax up path ps) = [req]" "verb req = GET"
         "url req = path" "params req = ps"
         "fst (guarded_get (catch_clause fmt) ax up path ps) =
       (case up req of
          Resolves response \<Rightarrow>
            if status response = 200 then Return (Json_content (data response))
            else Throw (McpError InternalError
                   (''Unknown error: '' @ fmt InternalError
                      (''Solana Tracker API returned status code: '' @
                         number_to_string (status response) @ '': '' @ statusText response)))
        | Rejects e \<Rightarrow>
            Throw (McpError InternalError
              ((if isAxiosError e then ''Solana Tracker API error: '' else ''Unknown error: '')
                 @ message fmt e)))"
      by blast
    from m r(3,4) have "(\<exists>pre post. url req = pre @ ''undefined'' @ post) \<or>
        (p, JUndefined) \<in> set (params req)"
      unfolding undef undef' by simp
    with r(1,2,5) show ?goal unfolding h by blast
  qed
  have shape_path: ?goal
    if "call_tool_handler fmt ax up (name t) (Some a)
        = guarded_get (catch_clause fmt) ax up (pre @ to_string (property a p) @ post) []"
    for pre post
    using that by (rule shape) blast
  from pair_cases [OF required_of_dispatched [OF assms(1-3)]] show ?thesis
  proof (elim disjE conjE)
    assume n: "name t = ''get_token_information''" and p: "p = ''tokenAddress''"
    have "call_tool_handler fmt ax up (name t) (Some a)
        = guarded_get (catch_clause fmt) ax up
            (''/tokens/'' @ to_string (property a p) @ []) []"
      unfolding n p by (simp add: dispatch get_token_information_def destructure_def)
    then show ?thesis by (rule shape_path)
  next
    assume n: "name t = ''get_token_information_by_pool''" and p: "p = ''poolAddress''"
    have "call_tool_handler fmt ax up (name t) (Some a)
        = guarded_get (catch_clause fmt) ax up
            (''/tokens/by-pool/'' @ to_string (property a p) @ []) []"
      unfolding n p by (simp add: dispatch get_token_information_by_pool_def destructure_def)
    then show ?thesis by (rule shape_path)
  next
    assume n: "name t = ''get_token_holders_top''" and p: "p = ''tokenAddress''"
    have "call_tool_handler fmt ax up (name t) (Some a)
        = guarded_get (catch_clause fmt) ax up
            (''/tokens/'' @ to_string (property a p) @ ''/holders/top'') []"
      unfolding n p by (simp add: dispatch get_token_holders_top_def destructure_def)
    then show ?thesis by (rule shape_path)
  next
    assume n: "name t = ''get_token_ath''" and p: "p = ''tokenAddress''"
    have "call_tool_handler fmt ax up (name t) (Some a)
        = guarded_get (catch_clause fmt) ax up
            (''/tokens/'' @ to_string (property a p) @ ''/ath'') []"
      unfolding n p by (simp add: dispatch get_token_ath_def destructure_def)
    then show ?thesis by (rule shape_path)
  next
    assume n: "name t = ''get_tokens_created_by_wallet''" and p: "p = ''wallet''"
    have "call_tool_handler fmt ax up (name t) (Some a)
        = guarded_get (catch_clause fmt) ax up
            (''/deployer/'' @ to_string (property a p) @ []) []"
      unfolding n p by (simp add: dispatch get_tokens_created_by_wallet_def destructure_def)
    then show ?thesis by (rule shape_path)
  next
    assume n: "name t = ''search_tokens''" and p: "p = ''query''"
    have "call_tool_handler fmt ax up (name t) (Some a)
        = guarded_get (catch_clause fmt) ax up ''/search''
            (map (\<lambda>k. (k, property a k)) search_fields)"
      unfolding n by (simp add: dispatch search_tokens_def destructure_def)
    moreover have "(p, property a p) \<in> set (map (\<lambda>k. (k, property a k)) search_fields)"
      unfolding p by (simp add: search_fields_def)
    ultimately show ?thesis by (intro shape disjI2)
  next
    assume n: "name t = ''get_trending_tokens_timeframe''" and p: "p = ''timeframe''"
    have "call_tool_handler fmt ax up (name t) (Some a)
        = guarded_get (catch_clause fmt) ax up
            (''/tokens/trending/'' @ to_string (property a p) @ []) []"
      unfolding n p by (simp add: dispatch get_trending_tokens_timeframe_def destructure_def)
    then show ?thesis by (rule shape_path)
  qed
qed

theorem missing_required_witness:
  "\<lparr>name = ''get_token_ath'',
     inputSchema = Some \<lparr>properties = [(''tokenAddress'', T_string)],
                         required = [''tokenAddress'']\<rparr>\<rparr> \<in> set tools \<and>
   ''get_token_ath'' \<in> set case_labels \<and>
   ''tokenAddress'' \<in> set (required_of
      \<lparr>name = ''get_token_ath'',
        inputSchema = Some \<lparr>properties = [(''tokenAddress'', T_string)],
                            required = [''tokenAddress'']\<rparr>\<rparr>) \<and>
   no_arguments ''tokenAddress'' = None \<and>
   call_tool_handler sdk_format (axiosInstance ''key'') upstream_down
       ''get_token_ath'' (Some no_arguments)
     = (Throw (McpError InternalError ''Solana Tracker API error: Network Error''),
        [axios_get (axiosInstance ''key'') ''/tokens/undefined/ath'' []])"
proof -
  let ?t = "\<lparr>name = ''get_token_ath'',
     inputSchema = Some \<lparr>properties = [(''tokenAddress'', T_string)],
                         required = [''tokenAddress'']\<rparr>\<rparr>"
  have h1: "?t \<in> set tools" by (simp add: tools_def)
  have h2: "name ?t \<in> set case_labels" unfolding case_labels_eq by simp
  have h3: "''tokenAddress'' \<in> set (required_of ?t)" by (simp add: required_of_def)
  have h4: "no_arguments ''tokenAddress'' = None" by (simp add: no_arguments_def)
  have r: "call_tool_handler sdk_format (axiosInstance ''key'') upstream_down
       ''get_token_ath'' (Some no_arguments)
     = (Throw (McpError InternalError ''Solana Tracker API error: Network Error''),
        [axios_get (axiosInstance ''key'') ''/tokens/undefined/ath'' []])"
    by (simp add: dispatch get_token_ath_def destructure_def guarded_get_def Let_def
          guarded_completion upstream_down_def isAxiosError_def message_def property_def
          no_arguments_def)
  from missing_required_is_not_checked
      [where t = ?t and p = "''tokenAddress''" and a = no_arguments and fmt = sdk_format
         and ax = "axiosInstance ''key''" and up = upstream_down, OF h1 h2 h3 h4]
    h1 h2 h3 h4 r
  show ?thesis by simp
qed

text \<open>
  Claim C3 as stated asks for a failure of kind invalid arguments and no request. Its
  own scenario, \<open>search_tokens\<close> with an empty arguments object, issues \<open>GET /search\<close> with
  every parameter \<open>undefined\<close> and returns the body of the upstream's 200.
\<close>

theorem missing_required_counterexample:
  "call_tool_handler sdk_format (axiosInstance ''key'') (upstream_answers 200 ''OK'' (JArr []))
     ''search_tokens'' (Some no_arguments)
   = (Return (Json_content (JArr [])),
      [\<lparr>config = axiosInstance ''key'', verb = GET, url = ''/search'',
        params =
          [(''query'', JUndefined), (''page'', JUndefined), (''limit'', JUndefined),
           (''sortBy'', JUndefined), (''sortOrder'', JUndefined),
           (''showAllPools'', JUndefined), (''minCreatedAt'', JUndefined),
           (''maxCreatedAt'', JUndefined), (''minLiquidity'', JUndefined),
           (''maxLiquidity'', JUndefined), (''minMarketCap'', JUndefined),
           (''maxMarketCap'', JUndefined), (''minBuys'', JUndefined),
           (''maxBuys'', JUndefined), (''minSells'', JUndefined), (''maxSells'', JUndefined),
           (''minTotalTransactions'', JUndefined), (''maxTotalTransactions'', JUndefined),
           (''lpBurn'', JUndefined), (''market'', JUndefined),
           (''freezeAuthority'', JUndefined), (''mintAuthority'', JUndefined),
           (''deployer'', JUndefined), (''showPriceChanges'', JUndefined)]\<rparr>])"
  by (simp add: dispatch search_tokens_def destructure_def guarded_get_def Let_def
        guarded_completion upstream_answers_def axios_get_def property_def no_arguments_def
        search_fields_def)

section \<open>C4: a status 200\<close>

text \<open>
  Claim C4: whenever the upstream answers 200 with a body, the call returns that body.

  The last case of the switch, \<open>get_tokens_multi_graduated\<close>, has no \<open>return\<close>: with a 200
  from the upstream the call issues its request and ends without a result. (The eleven
  cases before it return the body: \<open>complete_cases_return_body\<close>.)
\<close>

theorem graduated_200_returns_nothing:
  "call_tool_handler sdk_format (axiosInstance ''key'')
     (upstream_answers 200 ''OK'' (JObj [(''tokens'', JArr [])]))
     ''get_tokens_multi_graduated'' (Some no_arguments)
   = (Normal, [axios_get (axiosInstance ''key'') ''/tokens/multi/graduated'' []])"
  by (simp add: dispatch_graduated get_tokens_multi_graduated_def upstream_answers_def Let_def)

section \<open>C5: a failing upstream\<close>

text \<open>
  Claim C5: a status other than 200 or a failure of the transport becomes an upstream
  error, never swallowed, after exactly one request, for every tool and for
  \<open>get_latest_tokens\<close> too.

  In \<open>get_latest_tokens\<close> the branch of the \<open>catch\<close> for a client error is empty. When
  \<open>/tokens/latest\<close> cannot be reached the error is dropped, control runs on into the next
  case, a second request goes to \<open>/tokens/trending\<close>, and its body is returned.
\<close>

theorem latest_tokens_swallows_transport_error:
  "call_tool_handler sdk_format (axiosInstance ''key'') (upstream_latest_down (JArr []))
     ''get_latest_tokens'' (Some no_arguments)
   = (Return (Json_content (JArr [])),
      [axios_get (axiosInstance ''key'') ''/tokens/latest'' [(''page'', JUndefined)],
       axios_get (axiosInstance ''key'') ''/tokens/trending'' []])"
  by (simp add: dispatch_latest get_latest_tokens_def get_trending_tokens_def destructure_def
        guarded_get_def Let_def try_catch_def try_block_def catch_clause_latest_def
        catch_clause_def isAxiosError_def status_check_def upstream_latest_down_def
        axios_get_def property_def no_arguments_def)

section \<open>C6: query parameters\<close>

text \<open>
  Claim C6: the query parameters a tool declares are sent when the arguments have them
  and left out when not; the example is \<open>get_trades_token\<close> with a cursor and \<open>hideArb\<close>.

  \<open>get_trades_token\<close> is in the catalog, with these parameters, but the switch has no case
  for it: the call of the example issues no request at all.
\<close>

theorem trades_token_issues_no_request:
  "call_tool_handler fmt ax up ''get_trades_token''
     (Some [''tokenAddress'' \<mapsto> JStr ''ABC123'', ''cursor'' \<mapsto> JStr ''xyz'',
            ''hideArb'' \<mapsto> JStr ''true''])
   = (Normal, [])"
proof -
  have "''get_trades_token'' \<notin> set case_labels" unfolding case_labels_eq by simp
  then show ?thesis by (rule dispatch_no_label)
qed

section \<open>C7: method, base URL and key of every request\<close>

text \<open>
  Claim C7: every request that a call issues, whatever the tool name, the arguments and
  the upstream, is a GET of the one client instance: its base URL is the fixed one and
  its headers are the API key.
\<close>

theorem every_request_is_get_to_base_url_with_key:
  "\<forall>r \<in> set (snd (call_tool_handler fmt (axiosInstance API_KEY) up n arguments)).
     verb r = GET \<and> baseURL (config r) = ''https://data.solanatracker.io'' \<and>
     headers (config r) = [(''x-api-key'', API_KEY)]"
  using handler_requests [of fmt "axiosInstance API_KEY" up n arguments]
  by (auto simp: axiosInstance_def)

theorem every_request_witness:
  "snd (call_tool_handler sdk_format (axiosInstance ''key'') upstream_down
          ''get_latest_tokens'' (Some no_arguments))
     = [axios_get (axiosInstance ''key'') ''/tokens/latest'' [(''page'', JUndefined)],
        axios_get (axiosInstance ''key'') ''/tokens/trending'' []] \<and>
   list_all (\<lambda>r. verb r = GET \<and> baseURL (config r) = ''https://data.solanatracker.io'' \<and>
                 headers (config r) = [(''x-api-key'', ''key'')])
     (snd (call_tool_handler sdk_format (axiosInstance ''key'') upstream_down
          ''get_latest_tokens'' (Some no_arguments)))"
proof -
  from latest_when_unreachable every_request_is_get_to_base_url_with_key
    [of sdk_format "''key''" upstream_down "''get_latest_tokens''" "Some no_arguments"]
  show ?thesis unfolding list_all_iff by blast
qed

section \<open>C8: paths are printed, not encoded\<close>



section \<open>C9: no state between calls\<close>

text \<open>
  Claim C9: the handler is stateless and deterministic, and the shared configuration is
  only read. For any sequence of calls, each served against the upstream as it is at
  that time: the state of the process (the client instance) is after the sequence what
  it was before; every request of every call carries the settings of that one client;
  and two calls of the sequence with the same tool name and the same arguments, whose
  upstreams give the same answers to the requests of the first, have the same effect,
  wherever they stand in the sequence and whatever was served before them.
\<close>

theorem calls_are_independent:
  assumes "serve_all fmt s calls = (effects, s')"
  shows "s' = s \<and> length effects = length calls \<and>
     (\<forall>i<length calls. \<forall>r \<in> set (snd (effects ! i)). config r = client s) \<and>
     (\<forall>i<length calls. \<forall>j<length calls.
        tool (calls ! j) = tool (calls ! i) \<and>
        arguments_of (calls ! j) = arguments_of (calls ! i) \<and>
        same_answers (upstream_then (calls ! i)) (upstream_then (calls ! j)) (snd (effects ! i))
        \<longrightarrow> effects ! j = effects ! i)"
proof -
  from assms have s': "s' = s" by (simp add: serve_all_map)
  from assms have effects: "effects =
      map (\<lambda>c. call_tool_handler fmt (client s) (upstream_then c) (tool c) (arguments_of c)) calls"
    unfolding serve_all_map by auto
  have len: "length effects = length calls" by (simp add: effects)
  have nth: "effects ! i =
      call_tool_handler fmt (client s) (upstream_then (calls ! i)) (tool (calls ! i))
        (arguments_of (calls ! i))" if "i < length calls" for i
    using that by (simp add: effects)
  have cfg: "config r = client s" if "i < length calls" and "r \<in> set (snd (effects ! i))" for i r
    using that handler_requests [of fmt "client s" "upstream_then (calls ! i)" "tool (calls ! i)"
        "arguments_of (calls ! i)"]
    by (auto simp: nth)
  have det: "effects ! j = effects ! i"
    if "i < length calls" and "j < length calls"
      and "tool (calls ! j) = tool (calls ! i)"
      and "arguments_of (calls ! j) = arguments_of (calls ! i)"
      and "same_answers (upstream_then (calls ! i)) (upstream_then (calls ! j)) (snd (effects ! i))"
    for i j
    using that handler_local [of "upstream_then (calls ! i)" "upstream_then (calls ! j)" fmt
        "client s" "tool (calls ! i)" "arguments_of (calls ! i)"]
    by (simp add: nth)
  from s' len cfg det show ?thesis by blast
qed

theorem calls_are_independent_witness:
  "serve_all sdk_format \<lparr>client = axiosInstance ''key''\<rparr>
     [\<lparr>upstream_then = upstream_latest_down (JArr []), tool = ''get_token_ath'',
        arguments_of = Some [''tokenAddress'' \<mapsto> JStr ''ABC123'']\<rparr>,
      \<lparr>upstream_then = upstream_answers 200 ''OK'' (JArr []), tool = ''get_token_ath'',
        arguments_of = Some [''tokenAddress'' \<mapsto> JStr ''ABC123'']\<rparr>]
   = ([(Return (Json_content (JArr [])),
        [axios_get (axiosInstance ''key'') ''/tokens/ABC123/ath'' []]),
       (Return (Json_content (JArr [])),
        [axios_get (axiosInstance ''key'') ''/tokens/ABC123/ath'' []])],
      \<lparr>client = axiosInstance ''key''\<rparr>) \<and>
   same_answers (upstream_latest_down (JArr [])) (upstream_answers 200 ''OK'' (JArr []))
     [axios_get (axiosInstance ''key'') ''/tokens/ABC123/ath'' []]"
proof -
  have run: "serve_all sdk_format \<lparr>client = axiosInstance ''key''\<rparr>
     [\<lparr>upstream_then = upstream_latest_down (JArr []), tool = ''get_token_ath'',
        arguments_of = Some [''tokenAddress'' \<mapsto> JStr ''ABC123'']\<rparr>,
      \<lparr>upstream_then = upstream_answers 200 ''OK'' (JArr []), tool = ''get_token_ath'',
        arguments_of = Some [''tokenAddress'' \<mapsto> JStr ''ABC123'']\<rparr>]
   = ([(Return (Json_content (JArr [])),
        [axios_get (axiosInstance ''key'') ''/tokens/ABC123/ath'' []]),
       (Return (Json_content (JArr [])),
        [axios_get (axiosInstance ''key'') ''/tokens/ABC123/ath'' []])],
      \<lparr>client = axiosInstance ''key''\<rparr>)"
    by (simp add: serve_def dispatch get_token_ath_def destructure_def guarded_get_def Let_def
          guarded_completion upstream_answers_def upstream_latest_down_def axios_get_def
          property_def)
  have same: "same_answers (upstream_latest_down (JArr [])) (upstream_answers 200 ''OK'' (JArr []))
     [axios_get (axiosInstance ''key'') ''/tokens/ABC123/ath'' []]"
    by (simp add: same_answers_def upstream_answers_def upstream_latest_down_def axios_get_def)
  from calls_are_independent [OF run] run same show ?thesis by simp
qed

section \<open>C10: the code of a surfaced error\<close>

text \<open>
  Claim C10, as the code has it: when a call of any name but
  \<open>get_tokens_multi_graduated\<close> ends with an error, the error is an \<open>McpError\<close> with the
  code \<open>InternalError\<close>, and only its message tells the kinds of failure apart. The one
  exception is a request without an arguments object: each of the eight cases that
  destructure the arguments then throws a \<open>TypeError\<close> in front of its \<open>try\<close>, and issues
  no request.
\<close>

theorem surfaced_errors_are_internal:
  "(n \<noteq> ''get_tokens_multi_graduated'' \<and>
    fst (call_tool_handler fmt ax up n arguments) = Throw e \<longrightarrow>
      (\<exists>m. e = McpError InternalError m) \<or>
      (arguments = None \<and>
       (\<exists>p. (n, p) \<in> set destructuring_cases \<and> e = TypeError (cannot_destructure p)))) \<and>
   ((n, p) \<in> set destructuring_cases \<longrightarrow>
      call_tool_handler fmt ax up n None = (Throw (TypeError (cannot_destructure p)), []))"
proof -
  have first: "(\<exists>m. e = McpError InternalError m) \<or>
      (arguments = None \<and>
       (\<exists>p. (n, p) \<in> set destructuring_cases \<and> e = TypeError (cannot_destructure p)))"
    if "n \<noteq> ''get_tokens_multi_graduated''"
      and "fst (call_tool_handler fmt ax up n arguments) = Throw e"
  proof (cases arguments)
    case (Some a)
    from that(1) that(2) [unfolded Some] have "\<exists>m. e = McpError InternalError m"
      by (rule throws_internal_with_arguments)
    then show ?thesis by (rule disjI1)
  next
    case None
    have "n \<in> set case_labels"
    proof (rule ccontr)
      assume "n \<notin> set case_labels"
      with that(2) show False by (simp add: dispatch_no_label)
    qed
    from label_cases [OF this] show ?thesis
    proof (elim disjE)
      assume n: "n = ''get_token_information''"
      from that(2) have "e = TypeError (cannot_destructure ''tokenAddress'')"
        unfolding None n without_arguments by simp
      with None in_destructuring_cases show ?thesis unfolding n by blast
    next
      assume n: "n = ''get_token_information_by_pool''"
      from that(2) have "e = TypeError (cannot_destructure ''poolAddress'')"
        unfolding None n without_arguments by simp
      with None in_destructuring_cases show ?thesis unfolding n by blast
    next
      assume n: "n = ''get_token_holders_top''"
      from that(2) have "e = TypeError (cannot_destructure ''tokenAddress'')"
        unfolding None n without_arguments by simp
      with None in_destructuring_cases show ?thesis unfolding n by blast
    next
      assume n: "n = ''get_token_ath''"
      from that(2) have "e = TypeError (cannot_destructure ''tokenAddress'')"
        unfolding None n without_arguments by simp
      with None in_destructuring_cases show ?thesis unfolding n by blast
    next
      assume n: "n = ''get_tokens_created_by_wallet''"
      from that(2) have "e = TypeError (cannot_destructure ''wallet'')"
        unfolding None n without_arguments by simp
      with None in_destructuring_cases show ?thesis unfolding n by blast
    next
      assume n: "n = ''search_tokens''"
      from that(2) have "e = TypeError (cannot_destructure ''query'')"
        unfolding None n without_arguments by simp
      with None in_destructuring_cases show ?thesis unfolding n by blast
    next
      assume n: "n = ''get_latest_tokens''"
      from that(2) have "e = TypeError (cannot_destructure ''page'')"
        unfolding None n without_arguments by simp
      with None in_destructuring_cases show ?thesis unfolding n by blast
    next
      assume n: "n = ''get_trending_tokens''"
      from that(2) have "fst (get_trending_tokens fmt ax up None) = Throw e"
        unfolding None n dispatch .
      then have "\<exists>m. e = McpError InternalError m" by (rule block_throws_internal)
      then show ?thesis by (rule disjI1)
    next
      assume n: "n = ''get_trending_tokens_timeframe''"
      from that(2) have "e = TypeError (cannot_destructure ''timeframe'')"
        unfolding None n without_arguments by simp
      with None in_destructuring_cases show ?thesis unfolding n by blast
    next
      assume n: "n = ''get_tokens_volume''"
      from that(2) have "fst (get_tokens_volume fmt ax up None) = Throw e"
        unfolding None n dispatch .
      then have "\<exists>m. e = McpError InternalError m" by (rule block_throws_internal)
      then show ?thesis by (rule disjI1)
    next
      assume n: "n = ''get_tokens_multi_all''"
      from that(2) have "fst (get_tokens_multi_all fmt ax up None) = Throw e"
        unfolding None n dispatch .
      then have "\<exists>m. e = McpError InternalError m" by (rule block_throws_internal)
      then show ?thesis by (rule disjI1)
    next
      assume n: "n = ''get_tokens_multi_graduated''"
      with that(1) show ?thesis by (simp only: not_False_eq_True simp_thms)
    qed
  qed
  have second: "call_tool_handler fmt ax up n None = (Throw (TypeError (cannot_destructure p)), [])"
    if "(n, p) \<in> set destructuring_cases"
    using that by (rule destructuring_without_arguments)
  from first second show ?thesis by blast
qed

theorem surfaced_errors_witness:
  "''get_token_information'' \<noteq> ''get_tokens_multi_graduated'' \<and>
   fst (call_tool_handler sdk_format (axiosInstance ''key'') upstream_not_found
          ''get_token_information'' (Some [''tokenAddress'' \<mapsto> JStr ''ABC123'']))
     = Throw (McpError InternalError
         ''Solana Tracker API error: Request failed with status code 404'') \<and>
   (''get_token_information'', ''tokenAddress'') \<in> set destructuring_cases \<and>
   call_tool_handler sdk_format (axiosInstance ''key'') upstream_not_found
       ''get_token_information'' None
     = (Throw (TypeError (cannot_destructure ''tokenAddress'')), [])"
proof -
  have h: "''get_token_information'' \<noteq> ''get_tokens_multi_graduated''" by simp
  have r: "fst (call_tool_handler sdk_format (axiosInstance ''key'') upstream_not_found
          ''get_token_information'' (Some [''tokenAddress'' \<mapsto> JStr ''ABC123'']))
     = Throw (McpError InternalError
         ''Solana Tracker API error: Request failed with status code 404'')"
    by (simp add: dispatch get_token_information_def destructure_def guarded_get_result
          guarded_completion upstream_not_found_def isAxiosError_def message_def)
  have d: "(''get_token_information'', ''tokenAddress'') \<in> set destructuring_cases"
    by (rule in_destructuring_cases)
  from surfaced_errors_are_internal
      [of "''get_token_information''" sdk_format "axiosInstance ''key''" upstream_not_found
          "Some [''tokenAddress'' \<mapsto> JStr ''ABC123'']"
          "McpError InternalError ''Solana Tracker API error: Request failed with status code 404''"
          "''tokenAddress''"]
    h r d
  show ?thesis by blast
qed

text \<open>
  Claim C10 as stated covers every error. Two are not an \<open>McpError\<close>: without an arguments
  object the destructuring in front of the \<open>try\<close> throws a \<open>TypeError\<close>, and the last case,
  which has no \<open>catch\<close>, lets the client's error through as it is.
\<close>

theorem surfaced_errors_counterexample:
  "call_tool_handler sdk_format (axiosInstance ''key'') (upstream_answers 200 ''OK'' JNull)
     ''get_token_information'' None
   = (Throw (TypeError (cannot_destructure ''tokenAddress'')), []) \<and>
   call_tool_handler sdk_format (axiosInstance ''key'') upstream_down
     ''get_tokens_multi_graduated'' (Some no_arguments)
   = (Throw (AxiosError ''Network Error''),
      [axios_get (axiosInstance ''key'') ''/tokens/multi/graduated'' []])"
  by (simp add: dispatch dispatch_graduated get_token_information_def destructure_def
        get_tokens_multi_graduated_def upstream_down_def Let_def)

end
